theory Spec2Isabelle
  imports Complex_Main "HOL-Library.Sublist"
begin

section \<open>JavaScript values used by the bill-extraction service\<close>

text \<open>
  The service under study is \<^verbatim>\<open>src/services/pdfService.js\<close> (the revision that calls
  \<^verbatim>\<open>openai.responses.create\<close>, with six models) and the controller
  \<^verbatim>\<open>processPdf\<close> of \<^verbatim>\<open>src/index.js\<close>. Strings are lists of code units; the model keeps
  the code units below 256, which covers every literal of the source.
\<close>

subsection \<open>Errors\<close>

text \<open>A thrown JavaScript error is a value: its class and its \<^verbatim>\<open>message\<close>.\<close>

datatype js_error = Error (message: string) | TypeError (message: string)

subsection \<open>Numbers\<close>

text \<open>
  A JavaScript number is an IEEE 754 binary64. The model keeps the exact rational value
  of a finite number and rounds the exact result of every operation to the nearest
  representable value, ties to even (\<open>fl\<close>), which is what binary64 arithmetic computes
  as long as the result stays below \<open>2 ^ 1024\<close>. Infinities and NaN are not values of the
  model; the places where the source could produce them are named where they occur.
\<close>

function bitlength :: "int \<Rightarrow> nat" where
  "bitlength n = (if n \<le> 0 then 0 else Suc (bitlength (n div 2)))"
  by pat_completeness auto
termination
  by (relation "measure nat") auto

declare bitlength.simps [simp del]

definition binexp :: "rat \<Rightarrow> int" where
  \<comment> \<open>the exponent \<open>e\<close> with \<open>2 ^ e \<le> x < 2 ^ (e + 1)\<close>, for \<open>0 < x\<close>\<close>
  "binexp x = (if 1 \<le> x then int (bitlength \<lfloor>x\<rfloor>) - 1
               else - int (bitlength (\<lceil>1 / x\<rceil> - 1)))"

definition pow2 :: "int \<Rightarrow> rat" where
  "pow2 k = (if 0 \<le> k then 2 ^ nat k else 1 / 2 ^ nat (- k))"

definition round_half_even :: "rat \<Rightarrow> int" where
  "round_half_even x =
     (let n = \<lfloor>x\<rfloor>; d = x - of_int n
      in if d < 1 / 2 then n else if 1 / 2 < d then n + 1 else if even n then n else n + 1)"

definition fl :: "rat \<Rightarrow> rat" where
  \<comment> \<open>53 significant bits; below \<open>2 ^ (- 1022)\<close> the spacing stays \<open>2 ^ (- 1074)\<close>\<close>
  "fl x = (if x = 0 then 0
           else let ulp = pow2 (max (binexp \<bar>x\<bar>) (- 1022) - 52)
                in sgn x * of_int (round_half_even (\<bar>x\<bar> / ulp)) * ulp)"

definition js_div :: "rat \<Rightarrow> rat \<Rightarrow> rat" where
  "js_div a b = fl (a / b)"

definition js_mul :: "rat \<Rightarrow> rat \<Rightarrow> rat" where
  "js_mul a b = fl (a * b)"

definition js_add :: "rat \<Rightarrow> rat \<Rightarrow> rat" where
  "js_add a b = fl (a + b)"

text \<open>
  \<^verbatim>\<open>Number.prototype.toFixed(f)\<close>: the integer \<open>n\<close> nearest to \<open>x * 10 ^ f\<close> (the larger
  one of two), written in decimal with at least one digit before the point. The sign is
  taken off first and put back in front. (From \<open>10 ^ 21\<close> on, JavaScript switches to
  exponent notation; no amount of this service comes near.)
\<close>

definition digit_char :: "int \<Rightarrow> char" where
  "digit_char d = ''0123456789'' ! nat (d mod 10)"

function digits_of :: "int \<Rightarrow> string" where
  "digits_of n = (if n < 10 then [digit_char n] else digits_of (n div 10) @ [digit_char n])"
  by pat_completeness auto
termination
  by (relation "measure nat") auto

declare digits_of.simps [simp del]

definition toFixed :: "nat \<Rightarrow> rat \<Rightarrow> string" where
  "toFixed f x =
     (let s = (if x < 0 then ''-'' else []);
          n = \<lfloor>\<bar>x\<bar> * 10 ^ f + 1 / 2\<rfloor>;
          m = digits_of n;
          m = (if f \<noteq> 0
               then let z = replicate (Suc f - length m) CHR ''0'' @ m
                    in take (length z - f) z @ ''.'' @ drop (length z - f) z
               else m)
      in s @ m)"

subsection \<open>The usage object of an API response\<close>

text \<open>
  \<^verbatim>\<open>response.usage\<close> is whatever the API returned: nothing, \<^verbatim>\<open>null\<close>, a primitive, or an
  object. Of an object the service reads six properties, each one absent (\<open>None\<close>, which
  also stands for \<^verbatim>\<open>null\<close>) or a token count, a non-negative integer.
\<close>

record usage_fields =
  prompt_tokens :: "nat option"
  input_tokens :: "nat option"
  completion_tokens :: "nat option"
  output_tokens :: "nat option"
  total_tokens :: "nat option"
  total_ms :: "nat option"

datatype usage_value =
  UUndefined | UNull | UBoolean bool | UNumber rat | UString string | UObject usage_fields

definition no_fields :: usage_fields where
  "no_fields = \<lparr>prompt_tokens = None, input_tokens = None, completion_tokens = None,
                 output_tokens = None, total_tokens = None, total_ms = None\<rparr>"

fun truthy :: "usage_value \<Rightarrow> bool" where
  "truthy UUndefined = False"
| "truthy UNull = False"
| "truthy (UBoolean b) = b"
| "truthy (UNumber x) = (x \<noteq> 0)"
| "truthy (UString s) = (s \<noteq> [])"
| "truthy (UObject u) = True"

fun typeof :: "usage_value \<Rightarrow> string" where
  "typeof UUndefined = ''undefined''"
| "typeof UNull = ''object''"
| "typeof (UBoolean b) = ''boolean''"
| "typeof (UNumber x) = ''number''"
| "typeof (UString s) = ''string''"
| "typeof (UObject u) = ''object''"

fun props :: "usage_value \<Rightarrow> usage_fields option" where
  \<comment> \<open>reading a property of \<^verbatim>\<open>undefined\<close> or \<^verbatim>\<open>null\<close> throws; a primitive has none of the six\<close>
  "props UUndefined = None"
| "props UNull = None"
| "props (UObject u) = Some u"
| "props v = Some no_fields"

text \<open>\<^verbatim>\<open>a || b\<close> on counts: \<^verbatim>\<open>undefined\<close> and \<open>0\<close> are falsy, every other count is truthy.\<close>

definition truthy_count :: "nat option \<Rightarrow> bool" where
  "truthy_count a = (case a of None \<Rightarrow> False | Some n \<Rightarrow> n \<noteq> 0)"

definition js_or :: "nat option \<Rightarrow> nat option \<Rightarrow> nat option" where
  "js_or a b = (if truthy_count a then a else b)"

definition or_number :: "nat option \<Rightarrow> nat \<Rightarrow> nat" where
  "or_number a d = (case a of None \<Rightarrow> d | Some n \<Rightarrow> if n \<noteq> 0 then n else d)"

text \<open>
  Lines 294--296 of \<^verbatim>\<open>calculatePrice\<close>, and the same three expressions in the results of
  \<^verbatim>\<open>extractBillData\<close> (lines 438--443) and \<^verbatim>\<open>extractBillDataWithAllModels\<close> (lines 552--557).
\<close>

definition promptTokens :: "usage_fields \<Rightarrow> nat" where
  "promptTokens u = or_number (js_or (prompt_tokens u) (input_tokens u)) 0"

definition completionTokens :: "usage_fields \<Rightarrow> nat" where
  "completionTokens u = or_number (js_or (completion_tokens u) (output_tokens u)) 0"

definition totalTokens :: "usage_fields \<Rightarrow> nat" where
  "totalTokens u = or_number (total_tokens u) (promptTokens u + completionTokens u)"

record model_usage =
  usage_prompt_tokens :: nat
  usage_completion_tokens :: nat
  usage_total_tokens :: nat

definition normalize_usage :: "usage_fields \<Rightarrow> model_usage" where
  "normalize_usage u =
     \<lparr>usage_prompt_tokens = promptTokens u,
      usage_completion_tokens = completionTokens u,
      usage_total_tokens = totalTokens u\<rparr>"

section \<open>Cost accounting: \<^verbatim>\<open>calculatePrice\<close>\<close>

record price_entry =
  p_input :: rat
  p_cachedInput :: rat
  p_output :: rat

text \<open>
  \<^verbatim>\<open>prices\<close> is an object literal, and \<^verbatim>\<open>prices[model]\<close> is a property read: it finds the
  six entries of the literal and, through the prototype chain, the properties every
  object inherits from \<^verbatim>\<open>Object.prototype\<close>. An inherited property is a function (or, for
  \<^verbatim>\<open>__proto__\<close>, an object): truthy, and without \<^verbatim>\<open>input\<close>, \<^verbatim>\<open>cachedInput\<close> or \<^verbatim>\<open>output\<close>.
\<close>

datatype property = Own price_entry | Inherited | Missing

definition object_prototype_keys :: "string list" where
  "object_prototype_keys =
     [''constructor'', ''__defineGetter__'', ''__defineSetter__'', ''hasOwnProperty'',
      ''__lookupGetter__'', ''__lookupSetter__'', ''isPrototypeOf'', ''propertyIsEnumerable'',
      ''toString'', ''valueOf'', ''__proto__'', ''toLocaleString'']"

definition price_table :: "(string \<times> price_entry) list" where
  "price_table =
     [(''gpt-4.5-preview'', \<lparr>p_input = fl 75, p_cachedInput = fl (375 / 10), p_output = fl 150\<rparr>),
      (''gpt-4o'', \<lparr>p_input = fl (25 / 10), p_cachedInput = fl (125 / 100), p_output = fl 10\<rparr>),
      (''gpt-4o-mini'', \<lparr>p_input = fl (15 / 100), p_cachedInput = fl (75 / 1000), p_output = fl (60 / 100)\<rparr>),
      (''o3-mini'', \<lparr>p_input = fl (110 / 100), p_cachedInput = fl (55 / 100), p_output = fl (440 / 100)\<rparr>),
      (''o1'', \<lparr>p_input = fl 15, p_cachedInput = fl (750 / 100), p_output = fl 60\<rparr>),
      (''o1-pro'', \<lparr>p_input = fl 150, p_cachedInput = fl 150, p_output = fl 600\<rparr>)]"

definition prices :: "string \<Rightarrow> property" where
  "prices key =
     (case map_of price_table key of
        Some p \<Rightarrow> Own p
      | None \<Rightarrow> if key \<in> set object_prototype_keys then Inherited else Missing)"

record rates =
  inputRate :: string
  cachedInputRate :: string
  outputRate :: string

record costs =
  inputCost :: string
  outputCost :: string
  totalCost :: string

record pricing =
  model :: string
  rates :: rates
  costs :: costs

definition per_million :: "rat \<Rightarrow> string" where
  "per_million r = ''$'' @ toFixed 2 r @ '' per million tokens''"

definition dollars :: "rat \<Rightarrow> string" where
  "dollars x = ''$'' @ toFixed 6 x"

definition not_available :: "string \<Rightarrow> pricing" where
  "not_available m =
     \<lparr>model = m,
      rates = \<lparr>inputRate = ''N/A'', cachedInputRate = ''N/A'', outputRate = ''N/A''\<rparr>,
      costs = \<lparr>inputCost = ''N/A'', outputCost = ''N/A'', totalCost = ''N/A''\<rparr>\<rparr>"

definition price_of :: "string \<Rightarrow> price_entry \<Rightarrow> usage_fields \<Rightarrow> pricing" where
  "price_of m modelPrices u =
     (let inputPrice = js_mul (js_div (of_nat (promptTokens u)) 1000000) (p_input modelPrices);
          outputPrice = js_mul (js_div (of_nat (completionTokens u)) 1000000) (p_output modelPrices)
      in \<lparr>model = m,
          rates = \<lparr>inputRate = per_million (p_input modelPrices),
                   cachedInputRate = per_million (p_cachedInput modelPrices),
                   outputRate = per_million (p_output modelPrices)\<rparr>,
          costs = \<lparr>inputCost = dollars inputPrice,
                   outputCost = dollars outputPrice,
                   totalCost = dollars (js_add inputPrice outputPrice)\<rparr>\<rparr>)"

text \<open>
  \<^verbatim>\<open>calculatePrice(model, usage)\<close>, lines 275--350. With an inherited property for
  \<^verbatim>\<open>modelPrices\<close>, \<^verbatim>\<open>modelPrices.input\<close> is \<^verbatim>\<open>undefined\<close> and the first
  \<^verbatim>\<open>modelPrices.input.toFixed(2)\<close> of the result throws a TypeError.
\<close>

definition invalid_usage :: "usage_value \<Rightarrow> bool" where
  \<comment> \<open>line 276: \<^verbatim>\<open>!usage || typeof usage !== 'object'\<close>\<close>
  "invalid_usage usage = (\<not> truthy usage \<or> typeof usage \<noteq> ''object'')"

definition calculatePrice :: "string \<Rightarrow> usage_value \<Rightarrow> js_error + pricing" where
  "calculatePrice m usage =
     (if invalid_usage usage then Inr (not_available m)
      else case props usage of
        None \<Rightarrow> Inl (TypeError ''Cannot read properties of null (reading 'prompt_tokens')'')
      | Some u \<Rightarrow>
          (let modelPrices = (case prices m of Missing \<Rightarrow> prices ''gpt-4o'' | p \<Rightarrow> p)
           in case modelPrices of
                Own p \<Rightarrow> Inr (price_of m p u)
              | _ \<Rightarrow> Inl (TypeError ''Cannot read properties of undefined (reading 'toFixed')'')))"

section \<open>Response reconciliation\<close>

subsection \<open>JSON values and \<^verbatim>\<open>JSON.parse\<close>\<close>

text \<open>
  A parsed reply is a JSON value. An object keeps its members in the order in which the
  keys first appeared; a repeated key overwrites the earlier value, as property
  definition does in JavaScript. A number is the binary64 nearest to its decimal text.
\<close>

datatype json =
  JNull | JBoolean bool | JNumber rat | JString string
  | JArray "json list" | JObject "(string \<times> json) list"

fun define_property :: "string \<Rightarrow> json \<Rightarrow> (string \<times> json) list \<Rightarrow> (string \<times> json) list" where
  "define_property k v [] = [(k, v)]"
| "define_property k v ((k', v') # ms) =
     (if k' = k then (k, v) # ms else (k', v') # define_property k v ms)"

fun truthy_json :: "json \<Rightarrow> bool" where
  "truthy_json JNull = False"
| "truthy_json (JBoolean b) = b"
| "truthy_json (JNumber x) = (x \<noteq> 0)"
| "truthy_json (JString s) = (s \<noteq> [])"
| "truthy_json (JArray xs) = True"
| "truthy_json (JObject ms) = True"

fun typeof_json :: "json \<Rightarrow> string" where
  "typeof_json JNull = ''object''"
| "typeof_json (JBoolean b) = ''boolean''"
| "typeof_json (JNumber x) = ''number''"
| "typeof_json (JString s) = ''string''"
| "typeof_json (JArray xs) = ''object''"
| "typeof_json (JObject ms) = ''object''"

text \<open>
  \<^verbatim>\<open>JSON.parse\<close> is the language's own; it is modelled by a lexer and a parser with an
  explicit stack, after the JSON grammar: four whitespace characters, the three
  literals, numbers, strings with their escapes, arrays and objects. A code unit from an
  escape \<^verbatim>\<open>\uXXXX\<close> is kept modulo 256, as every string of the model is.
\<close>

datatype token =
  TLBrace | TRBrace | TLBracket | TRBracket | TColon | TComma
  | TString string | TNumber rat | TTrue | TFalse | TNull

definition is_json_ws :: "char \<Rightarrow> bool" where
  "is_json_ws c = (c = CHR 0x20 \<or> c = CHR 0x09 \<or> c = CHR 0x0A \<or> c = CHR 0x0D)"

definition code_unit :: "char \<Rightarrow> nat" where
  "code_unit c = of_char c"

definition is_digit :: "char \<Rightarrow> bool" where
  "is_digit c = (48 \<le> code_unit c \<and> code_unit c \<le> 57)"

definition digit_val :: "char \<Rightarrow> int" where
  "digit_val c = int (code_unit c) - 48"

definition hex_val :: "char \<Rightarrow> nat option" where
  "hex_val c =
     (if is_digit c then Some (code_unit c - 48)
      else if 97 \<le> code_unit c \<and> code_unit c \<le> 102 then Some (code_unit c - 87)
      else if 65 \<le> code_unit c \<and> code_unit c \<le> 70 then Some (code_unit c - 55)
      else None)"

definition hex4 :: "char \<Rightarrow> char \<Rightarrow> char \<Rightarrow> char \<Rightarrow> nat option" where
  "hex4 a b c d =
     (case (hex_val a, hex_val b, hex_val c, hex_val d) of
        (Some x, Some y, Some z, Some w) \<Rightarrow> Some (((x * 16 + y) * 16 + z) * 16 + w)
      | _ \<Rightarrow> None)"

definition escape_char :: "char \<Rightarrow> char option" where
  "escape_char e =
     (if e = CHR 0x22 \<or> e = CHR 0x5C \<or> e = CHR ''/'' then Some e
      else if e = CHR ''b'' then Some (CHR 0x08)
      else if e = CHR ''f'' then Some (CHR 0x0C)
      else if e = CHR ''n'' then Some (CHR 0x0A)
      else if e = CHR ''r'' then Some (CHR 0x0D)
      else if e = CHR ''t'' then Some (CHR 0x09)
      else None)"

definition cons_fst :: "'a \<Rightarrow> ('a list \<times> 'b) option \<Rightarrow> ('a list \<times> 'b) option" where
  "cons_fst x r = (case r of None \<Rightarrow> None | Some (xs, y) \<Rightarrow> Some (x # xs, y))"

text \<open>The rest of a string after its opening quote: the decoded text and what follows.\<close>

fun lex_string :: "string \<Rightarrow> (string \<times> string) option" where
  "lex_string [] = None"
| "lex_string (c # cs) =
     (if c = CHR 0x22 then Some ([], cs)
      else if c = CHR 0x5C then
        (case cs of
           [] \<Rightarrow> None
         | e # cs' \<Rightarrow>
             (if e = CHR ''u'' then
                (case cs' of
                   h1 # h2 # h3 # h4 # cs'' \<Rightarrow>
                     (case hex4 h1 h2 h3 h4 of
                        None \<Rightarrow> None
                      | Some n \<Rightarrow> cons_fst (char_of n) (lex_string cs''))
                 | _ \<Rightarrow> None)
              else (case escape_char e of
                      None \<Rightarrow> None
                    | Some x \<Rightarrow> cons_fst x (lex_string cs'))))
      else if code_unit c < 32 then None
      else cons_fst c (lex_string cs))"

definition digits_val :: "string \<Rightarrow> int" where
  "digits_val ds = foldl (\<lambda>a c. 10 * a + digit_val c) 0 ds"

definition pow10 :: "int \<Rightarrow> rat" where
  "pow10 k = (if 0 \<le> k then 10 ^ nat k else 1 / 10 ^ nat (- k))"

text \<open>
  A number: \<^verbatim>\<open>-?(0|[1-9][0-9]*)(\.[0-9]+)?([eE][+-]?[0-9]+)?\<close>, nothing before and nothing
  after.
\<close>

definition parse_exponent :: "string \<Rightarrow> int option" where
  "parse_exponent s =
     (case s of
        [] \<Rightarrow> Some 0
      | e # r \<Rightarrow>
          if e = CHR ''e'' \<or> e = CHR ''E'' then
            (let neg = (case r of [] \<Rightarrow> False | x # _ \<Rightarrow> x = CHR ''-'');
                 ds = (case r of [] \<Rightarrow> [] | x # r' \<Rightarrow> if x = CHR ''+'' \<or> x = CHR ''-'' then r' else r)
             in if ds \<noteq> [] \<and> list_all is_digit ds
                then Some (if neg then - digits_val ds else digits_val ds) else None)
          else None)"

definition parse_number :: "string \<Rightarrow> rat option" where
  "parse_number s =
     (let neg = (case s of [] \<Rightarrow> False | x # _ \<Rightarrow> x = CHR ''-'');
          s1 = (if neg then drop 1 s else s);
          ip = takeWhile is_digit s1;
          s2 = dropWhile is_digit s1;
          dot = (case s2 of [] \<Rightarrow> False | x # _ \<Rightarrow> x = CHR ''.'');
          fp = (if dot then takeWhile is_digit (drop 1 s2) else []);
          s3 = (if dot then dropWhile is_digit (drop 1 s2) else s2)
      in if ip = [] \<or> (1 < length ip \<and> take 1 ip = ''0'') \<or> (dot \<and> fp = []) then None
         else (case parse_exponent s3 of
                 None \<Rightarrow> None
               | Some ex \<Rightarrow>
                   (let a = (of_int (digits_val ip) + of_int (digits_val fp) / 10 ^ length fp)
                              * pow10 ex
                    in Some (fl (if neg then - a else a)))))"

definition is_number_char :: "char \<Rightarrow> bool" where
  "is_number_char c =
     (is_digit c \<or> c = CHR ''-'' \<or> c = CHR ''+'' \<or> c = CHR ''.'' \<or> c = CHR ''e'' \<or> c = CHR ''E'')"

definition cons_token :: "token \<Rightarrow> token list option \<Rightarrow> token list option" where
  "cons_token t r = (case r of None \<Rightarrow> None | Some ts \<Rightarrow> Some (t # ts))"

function lex :: "string \<Rightarrow> token list option" where
  "lex [] = Some []"
| "lex (c # cs) =
     (if is_json_ws c then lex cs
      else if c = CHR ''{'' then cons_token TLBrace (lex cs)
      else if c = CHR ''}'' then cons_token TRBrace (lex cs)
      else if c = CHR ''['' then cons_token TLBracket (lex cs)
      else if c = CHR '']'' then cons_token TRBracket (lex cs)
      else if c = CHR '':'' then cons_token TColon (lex cs)
      else if c = CHR '','' then cons_token TComma (lex cs)
      else if c = CHR 0x22 then
        (case lex_string cs of
           None \<Rightarrow> None
         | Some (s, r) \<Rightarrow> cons_token (TString s) (lex r))
      else if c = CHR ''-'' \<or> is_digit c then
        (case parse_number (c # takeWhile is_number_char cs) of
           None \<Rightarrow> None
         | Some x \<Rightarrow> cons_token (TNumber x) (lex (dropWhile is_number_char cs)))
      else if c = CHR ''t'' \<and> take 3 cs = ''rue'' then cons_token TTrue (lex (drop 3 cs))
      else if c = CHR ''f'' \<and> take 4 cs = ''alse'' then cons_token TFalse (lex (drop 4 cs))
      else if c = CHR ''n'' \<and> take 3 cs = ''ull'' then cons_token TNull (lex (drop 3 cs))
      else None)"
  by pat_completeness auto
termination
proof (relation "measure length", goal_cases)
  case (9 c cs x2 x y)
  have "lex_string s = Some (a, r) \<Longrightarrow> length r < length s" for s a r
  proof (induction s arbitrary: a r rule: lex_string.induct)
    case 1
    then show ?case by simp
  next
    case (2 c cs)
    then show ?case
      by (fastforce simp: cons_fst_def split: if_splits list.splits option.splits prod.splits)
  qed
  from this [of cs x y] 9 have "length y < length cs" by simp
  then show ?case by simp
next
  case (10 c cs x2)
  have "length (dropWhile is_number_char cs) \<le> length cs" by (rule length_dropWhile_le)
  then show ?case by simp
qed simp_all

declare lex.simps [simp del]

text \<open>The parser reads the tokens from left to right, with the open arrays and objects on a stack.\<close>

datatype frame =
  FArray "json list" | FObject "(string \<times> json) list" | FMember "(string \<times> json) list" string

datatype expect = Value | ValueOrEnd | KeyOrEnd | Key | Colon | CommaOrEnd

datatype pstate = Parsing expect "frame list" | Done json

fun complete :: "json \<Rightarrow> frame list \<Rightarrow> pstate option" where
  "complete v [] = Some (Done v)"
| "complete v (FArray xs # st) = Some (Parsing CommaOrEnd (FArray (xs @ [v]) # st))"
| "complete v (FMember ms k # st) = Some (Parsing CommaOrEnd (FObject (define_property k v ms) # st))"
| "complete v (FObject ms # st) = None"

fun start_value :: "token \<Rightarrow> frame list \<Rightarrow> pstate option" where
  "start_value (TString s) st = complete (JString s) st"
| "start_value (TNumber x) st = complete (JNumber x) st"
| "start_value TTrue st = complete (JBoolean True) st"
| "start_value TFalse st = complete (JBoolean False) st"
| "start_value TNull st = complete JNull st"
| "start_value TLBracket st = Some (Parsing ValueOrEnd (FArray [] # st))"
| "start_value TLBrace st = Some (Parsing KeyOrEnd (FObject [] # st))"
| "start_value t st = None"

fun step :: "pstate \<Rightarrow> token \<Rightarrow> pstate option" where
  "step (Done v) t = None"
| "step (Parsing Value st) t = start_value t st"
| "step (Parsing ValueOrEnd (FArray xs # st)) TRBracket = complete (JArray xs) st"
| "step (Parsing ValueOrEnd st) t = start_value t st"
| "step (Parsing KeyOrEnd (FObject ms # st)) TRBrace = complete (JObject ms) st"
| "step (Parsing KeyOrEnd (FObject ms # st)) (TString k) = Some (Parsing Colon (FMember ms k # st))"
| "step (Parsing Key (FObject ms # st)) (TString k) = Some (Parsing Colon (FMember ms k # st))"
| "step (Parsing Colon st) TColon = Some (Parsing Value st)"
| "step (Parsing CommaOrEnd (FArray xs # st)) TComma = Some (Parsing Value (FArray xs # st))"
| "step (Parsing CommaOrEnd (FArray xs # st)) TRBracket = complete (JArray xs) st"
| "step (Parsing CommaOrEnd (FObject ms # st)) TComma = Some (Parsing Key (FObject ms # st))"
| "step (Parsing CommaOrEnd (FObject ms # st)) TRBrace = complete (JObject ms) st"
| "step s t = None"

fun run :: "pstate \<Rightarrow> token list \<Rightarrow> json option" where
  "run (Done v) [] = Some v"
| "run (Parsing e st) [] = None"
| "run s (t # ts) = (case step s t of None \<Rightarrow> None | Some s' \<Rightarrow> run s' ts)"

definition JSON_parse :: "string \<Rightarrow> json option" where
  "JSON_parse text = (case lex text of None \<Rightarrow> None | Some ts \<Rightarrow> run (Parsing Value []) ts)"

subsection \<open>The two regular expressions\<close>

text \<open>
  \<^verbatim>\<open>content.match(re)\<close> without the \<^verbatim>\<open>g\<close> flag tries the start positions from left to
  right and returns the first match: the matched text and its groups, or \<^verbatim>\<open>null\<close>.
\<close>

fun search :: "(string \<Rightarrow> 'a option) \<Rightarrow> string \<Rightarrow> 'a option" where
  "search here [] = here []"
| "search here (c # cs) = (case here (c # cs) of Some m \<Rightarrow> Some m | None \<Rightarrow> search here cs)"

definition is_space :: "char \<Rightarrow> bool" where
  \<comment> \<open>the class \<^verbatim>\<open>\s\<close> below code unit 256: tab, line feed, vertical tab, form feed,
      carriage return, space, no-break space\<close>
  "is_space c =
     (c = CHR 0x09 \<or> c = CHR 0x0A \<or> c = CHR 0x0B \<or> c = CHR 0x0C \<or> c = CHR 0x0D
      \<or> c = CHR 0x20 \<or> c = CHR 0xA0)"

definition fence :: string where
  "fence = [CHR 0x60, CHR 0x60, CHR 0x60]"

text \<open>
  The fence expression is a fence, an optional \<^verbatim>\<open>json\<close>, \<^verbatim>\<open>\s*\<close>, the lazy group
  \<^verbatim>\<open>([\s\S]*?)\<close>, \<^verbatim>\<open>\s*\<close> and a fence. After the opening fence the greedy parts take
  \<^verbatim>\<open>json\<close> when it is there and all the white space that follows; giving any of it back
  cannot help, since none of it is a backquote. The lazy group then grows one code unit
  at a time until \<^verbatim>\<open>\s*\<close> and a fence match at the position reached (\<open>closes\<close>).
\<close>

definition closes :: "string \<Rightarrow> bool" where
  "closes t = prefix fence (dropWhile is_space t)"

fun lazy_group :: "string \<Rightarrow> (string \<times> string) option" where
  "lazy_group [] = (if closes [] then Some ([], []) else None)"
| "lazy_group (c # cs) =
     (if closes (c # cs) then Some ([], c # cs) else cons_fst c (lazy_group cs))"

definition fence_at :: "string \<Rightarrow> (string \<times> string) option" where
  \<comment> \<open>the whole match and group 1, for a match that starts at the head of the text\<close>
  "fence_at s =
     (if prefix fence s then
        (let s1 = drop 3 s;
             tag = (if prefix ''json'' s1 then ''json'' else []);
             s2 = drop (length tag) s1;
             ws = takeWhile is_space s2
         in case lazy_group (dropWhile is_space s2) of
              None \<Rightarrow> None
            | Some (g, r) \<Rightarrow> Some (fence @ tag @ ws @ g @ takeWhile is_space r @ fence, g))
      else None)"

text \<open>
  The brace expression is an opening brace, the greedy \<^verbatim>\<open>[\s\S]*\<close> and a closing brace: from
  an opening brace to the last closing brace after it.
\<close>

definition brace_at :: "string \<Rightarrow> string option" where
  "brace_at s =
     (case s of
        [] \<Rightarrow> None
      | c # cs \<Rightarrow>
          if c = CHR ''{'' \<and> CHR ''}'' \<in> set cs
          then Some (c # rev (dropWhile (\<lambda>x. x \<noteq> CHR ''}'') (rev cs)))
          else None)"

subsection \<open>From the reply text to the extracted data\<close>

text \<open>
  Lines 400--421 of \<^verbatim>\<open>extractBillData\<close>, and lines 521--542 of
  \<^verbatim>\<open>extractBillDataWithAllModels\<close> with another message: \<^verbatim>\<open>JSON.parse(content)\<close> first; when
  that throws, the first of the two expressions that matches, \<^verbatim>\<open>jsonMatch[1] || jsonMatch[0]\<close>
  of the match, and \<^verbatim>\<open>JSON.parse\<close> again. Whatever goes wrong in the second attempt is
  replaced by one error with the message \<open>msg\<close>.
\<close>

record regex_match =
  whole :: string
  group1 :: "string option"

definition jsonMatch :: "string \<Rightarrow> regex_match option" where
  "jsonMatch content =
     (case search fence_at content of
        Some (m, g) \<Rightarrow> Some \<lparr>whole = m, group1 = Some g\<rparr>
      | None \<Rightarrow>
          (case search brace_at content of
             Some m \<Rightarrow> Some \<lparr>whole = m, group1 = None\<rparr>
           | None \<Rightarrow> None))"

definition jsonString :: "regex_match \<Rightarrow> string" where
  "jsonString m = (case group1 m of None \<Rightarrow> whole m | Some g \<Rightarrow> if g \<noteq> [] then g else whole m)"

definition parse_content :: "string \<Rightarrow> string \<Rightarrow> js_error + json" where
  "parse_content msg content =
     (case JSON_parse content of
        Some extractedData \<Rightarrow> Inr extractedData
      | None \<Rightarrow>
          (case jsonMatch content of
             None \<Rightarrow> Inl (Error msg)
           | Some m \<Rightarrow>
               (case JSON_parse (jsonString m) of
                  None \<Rightarrow> Inl (Error msg)
                | Some extractedData \<Rightarrow> Inr extractedData)))"

section \<open>The extraction pipeline\<close>

subsection \<open>The collaborators: scratch files, the PDF library, the remote API\<close>

text \<open>
  The upload middleware has stored the PDF under \<^verbatim>\<open>fileData.path\<close>. The scratch storage is a
  map from paths to contents. \<^verbatim>\<open>fs.readFile\<close> fails on a path that is not there;
  \<^verbatim>\<open>fs.remove\<close> (of fs-extra) succeeds on a path that is not there and may be refused by
  the operating system, which \<open>remove_error\<close> decides. \<^verbatim>\<open>pdfParse\<close> and
  \<^verbatim>\<open>openai.responses.create\<close> are functions of what they are given.
\<close>

record file_data =
  path :: string
  originalname :: string

record api_request =
  req_model :: string
  req_input :: "(string \<times> string) list"
  temperature :: "rat option"

record api_response =
  output_text :: string
  response_usage :: usage_value

record env =
  pdfParse :: "string \<Rightarrow> js_error + string"
  responses_create :: "api_request \<Rightarrow> js_error + api_response"
  remove_error :: "string \<Rightarrow> js_error option"

type_synonym files = "string \<Rightarrow> string option"

definition readFile :: "files \<Rightarrow> string \<Rightarrow> js_error + string" where
  "readFile fs p =
     (case fs p of
        None \<Rightarrow> Inl (Error (''ENOENT: no such file or directory, open '' @ p))
      | Some bytes \<Rightarrow> Inr bytes)"

definition fs_remove :: "env \<Rightarrow> string \<Rightarrow> files \<Rightarrow> js_error option \<times> files" where
  "fs_remove env p fs =
     (case remove_error env p of
        Some e \<Rightarrow> (Some e, fs)
      | None \<Rightarrow> (None, fs(p := None)))"

subsection \<open>The prompt and the call\<close>

definition system_content :: string where
  "system_content = ''You are a helpful assistant that extracts information from electricity bills. You must return your response as a valid JSON object without any markdown formatting or code blocks.''"

definition user_content :: "string \<Rightarrow> string" where
  "user_content extractedText =
     ''Extract the following fields from this electricity bill text and return ONLY a JSON object (no markdown, no ''
     @ fence @ '' blocks):'' @ [CHR 0x0A, CHR 0x0A]
     @ ''Required fields: Address, Arrears, BaCode, BillDate, BillDueDate, BilledUnit, BillFetchTimeStamp, BillMonth, BillNo, CanSerNo, CGST, CircleCode, CmrDt, CmrKwh, ConCat, ConnLd, ConnType, ConsumerName, ConsUnits, CurAmtPay, DiscCode, EleDuty, EngyChg, EntityCode, EntityType, Filename, FinalClosingReading, FinalConsUnits, FinalOpeningReading, FulCstAdj, FxdChg, GrosAmt, LastAmountpaid, LastAmountPaidDate, LtPaySurChg, MeterStatus, MetRent, MetrNo, MulFac, OmrDt, OmrKwh.''
     @ [CHR 0x0A, CHR 0x0A] @ ''Bill text:'' @ [CHR 0x0A] @ extractedText"

definition request :: "string \<Rightarrow> string \<Rightarrow> api_request" where
  "request m extractedText =
     \<lparr>req_model = m,
      req_input = [(''system'', system_content), (''user'', user_content extractedText)],
      temperature = (if prefix ''gpt-'' m then Some (fl (1 / 10)) else None)\<rparr>"

text \<open>
  Lines 375--398 and 483--511: the call in its own \<^verbatim>\<open>try\<close>; an error of the API is thrown
  again with the model's name in front of its message.
\<close>

definition call_model :: "env \<Rightarrow> string \<Rightarrow> string \<Rightarrow> js_error + api_response" where
  "call_model env m extractedText =
     (case responses_create env (request m extractedText) of
        Inl e \<Rightarrow> Inl (Error (''Failed to process with model '' @ m @ '': '' @ message e))
      | Inr response \<Rightarrow> Inr response)"

text \<open>
  The \<^verbatim>\<open>usage\<close> object of a result (lines 437--444 and 551--558) reads properties of
  \<^verbatim>\<open>response.usage\<close>, which throws when that is \<^verbatim>\<open>undefined\<close> or \<^verbatim>\<open>null\<close>.
\<close>

fun usage_of :: "usage_value \<Rightarrow> js_error + usage_fields" where
  "usage_of UUndefined =
     Inl (TypeError ''Cannot read properties of undefined (reading 'prompt_tokens')'')"
| "usage_of UNull =
     Inl (TypeError ''Cannot read properties of null (reading 'prompt_tokens')'')"
| "usage_of (UObject u) = Inr u"
| "usage_of v = Inr no_fields"

subsection \<open>Single-model mode: \<^verbatim>\<open>extractBillData\<close>\<close>

definition invalid_data :: "json \<Rightarrow> bool" where
  \<comment> \<open>line 424: \<^verbatim>\<open>!extractedData || typeof extractedData !== 'object'\<close>\<close>
  "invalid_data extractedData =
     (\<not> truthy_json extractedData \<or> typeof_json extractedData \<noteq> ''object'')"

record extraction =
  data :: json
  usage :: model_usage
  pricing :: pricing

text \<open>
  Lines 359--451. The function returns its result or throws, and leaves the scratch
  storage as the second component. Its \<^verbatim>\<open>catch\<close> logs the error and throws it again.
\<close>

definition extractBillData ::
  "env \<Rightarrow> file_data \<Rightarrow> string \<Rightarrow> files \<Rightarrow> (js_error + extraction) \<times> files" where
  "extractBillData env fileData m fs =
     (case readFile fs (path fileData) of
        Inl e \<Rightarrow> (Inl e, fs)
      | Inr pdfBuffer \<Rightarrow>
     case pdfParse env pdfBuffer of
        Inl e \<Rightarrow> (Inl e, fs)
      | Inr extractedText \<Rightarrow>
     case call_model env m extractedText of
        Inl e \<Rightarrow> (Inl e, fs)
      | Inr response \<Rightarrow>
     case parse_content ''Failed to parse bill data from OpenAI response'' (output_text response) of
        Inl e \<Rightarrow> (Inl e, fs)
      | Inr extractedData \<Rightarrow>
     if invalid_data extractedData
     then (Inl (Error ''Invalid data format received from OpenAI''), fs)
     else
     case fs_remove env (path fileData) fs of
        (Some e, fs') \<Rightarrow> (Inl e, fs')
      | (None, fs') \<Rightarrow>
     case calculatePrice m (response_usage response) of
        Inl e \<Rightarrow> (Inl e, fs')
      | Inr price \<Rightarrow>
     case usage_of (response_usage response) of
        Inl e \<Rightarrow> (Inl e, fs')
      | Inr u \<Rightarrow>
          (Inr \<lparr>data = extractedData, usage = normalize_usage u, pricing = price\<rparr>, fs'))"

subsection \<open>The controller: \<^verbatim>\<open>processPdf\<close>\<close>

datatype body =
  ErrorBody string
  | SuccessBody json model_usage pricing

record http_response =
  status :: nat
  body :: body

text \<open>
  \<^verbatim>\<open>result.data.Filename = req.file.originalname\<close> defines a property. On an array the
  property is not an element, and the JSON body that \<^verbatim>\<open>res.json\<close> writes does not show it.
\<close>

fun set_Filename :: "string \<Rightarrow> json \<Rightarrow> json" where
  "set_Filename name (JObject ms) = JObject (define_property ''Filename'' (JString name) ms)"
| "set_Filename name v = v"

text \<open>
  Lines 64--101 of \<^verbatim>\<open>src/index.js\<close>. The controller reaches the service through
  \<^verbatim>\<open>require('../services/pdfService')\<close>; the model is given the service function, and
  \<open>post_pdf\<close> is the route with the service above, which the controller calls with the
  file alone, so with the default model \<^verbatim>\<open>o3-mini\<close>.
\<close>

definition processPdf ::
  "(file_data \<Rightarrow> files \<Rightarrow> (js_error + extraction) \<times> files)
    \<Rightarrow> file_data option \<Rightarrow> files \<Rightarrow> http_response \<times> files" where
  "processPdf service req_file fs =
     (case req_file of
        None \<Rightarrow> (\<lparr>status = 400, body = ErrorBody ''No PDF file provided''\<rparr>, fs)
      | Some f \<Rightarrow>
          (case service f fs of
             (Inr result, fs') \<Rightarrow>
               if truthy_json (data result) \<and> typeof_json (data result) = ''object''
               then (\<lparr>status = 200,
                      body = SuccessBody (set_Filename (originalname f) (data result))
                               (usage result) (pricing result)\<rparr>, fs')
               else (\<lparr>status = 422, body = ErrorBody ''Failed to extract data from the PDF''\<rparr>, fs')
           | (Inl error, fs') \<Rightarrow>
               (\<lparr>status = 500,
                 body = ErrorBody (if message error \<noteq> [] then message error
                                   else ''Failed to process PDF'')\<rparr>, fs')))"

definition post_pdf :: "env \<Rightarrow> file_data option \<Rightarrow> files \<Rightarrow> http_response \<times> files" where
  "post_pdf env = processPdf (\<lambda>f. extractBillData env f ''o3-mini'')"

subsection \<open>Multi-model mode: \<^verbatim>\<open>extractBillDataWithAllModels\<close>\<close>

text \<open>
  One entry of the result list. An entry made from a failure has \<^verbatim>\<open>error\<close> set and
  \<^verbatim>\<open>null\<close> for \<^verbatim>\<open>data\<close>, \<^verbatim>\<open>usage\<close> and \<^verbatim>\<open>pricing\<close>, and no \<^verbatim>\<open>processingTime\<close>. The \<^verbatim>\<open>timing\<close>
  of an entry is read off the wall clock and is left out.
\<close>

record entry =
  entry_model :: string
  entry_error :: "string option"
  entry_data :: json
  entry_usage :: "model_usage option"
  entry_pricing :: "pricing option"
  entry_processingTime :: "nat option"

definition AVAILABLE_MODELS :: "string list" where
  "AVAILABLE_MODELS = [''gpt-4.5-preview'', ''gpt-4o'', ''gpt-4o-mini'', ''o3-mini'', ''o1'', ''o1-pro'']"

text \<open>The body of the inner \<^verbatim>\<open>try\<close> (lines 472--567): the pipeline for one model.\<close>

definition try_model :: "env \<Rightarrow> string \<Rightarrow> string \<Rightarrow> js_error + entry" where
  "try_model env extractedText m =
     (case call_model env m extractedText of
        Inl e \<Rightarrow> Inl e
      | Inr response \<Rightarrow>
     case parse_content (''Failed to parse bill data from '' @ m @ '' response'')
            (output_text response) of
        Inl e \<Rightarrow> Inl e
      | Inr extractedData \<Rightarrow>
     case calculatePrice m (response_usage response) of
        Inl e \<Rightarrow> Inl e
      | Inr price \<Rightarrow>
     case usage_of (response_usage response) of
        Inl e \<Rightarrow> Inl e
      | Inr u \<Rightarrow>
          Inr \<lparr>entry_model = m, entry_error = None, entry_data = extractedData,
               entry_usage = Some (normalize_usage u), entry_pricing = Some price,
               entry_processingTime = Some (or_number (total_ms u) 0)\<rparr>)"

text \<open>The \<^verbatim>\<open>try\<close> with its \<^verbatim>\<open>catch (modelError)\<close> (lines 569--584).\<close>

definition model_entry :: "env \<Rightarrow> string \<Rightarrow> string \<Rightarrow> entry" where
  "model_entry env extractedText m =
     (case try_model env extractedText m of
        Inr r \<Rightarrow> r
      | Inl modelError \<Rightarrow>
          \<lparr>entry_model = m, entry_error = Some (message modelError), entry_data = JNull,
           entry_usage = None, entry_pricing = None, entry_processingTime = None\<rparr>)"

text \<open>The loop \<^verbatim>\<open>for (const model of AVAILABLE_MODELS)\<close>, with \<^verbatim>\<open>results.push\<close>.\<close>

fun process_models :: "env \<Rightarrow> string \<Rightarrow> entry list \<Rightarrow> string list \<Rightarrow> entry list" where
  "process_models env extractedText results [] = results"
| "process_models env extractedText results (m # ms) =
     process_models env extractedText (results @ [model_entry env extractedText m]) ms"

text \<open>
  The outer \<^verbatim>\<open>catch\<close> (lines 591--599): when \<^verbatim>\<open>fileData.path\<close> is not empty the file is
  removed, an error of the removal is dropped, and the caught error is thrown again.
\<close>

definition cleanup_and_throw ::
  "env \<Rightarrow> file_data \<Rightarrow> js_error \<Rightarrow> files \<Rightarrow> (js_error + entry list) \<times> files" where
  "cleanup_and_throw env fileData e fs =
     (Inl e, if path fileData \<noteq> [] then snd (fs_remove env (path fileData) fs) else fs)"

text \<open>Lines 458--601, for any list of models in the place of \<^verbatim>\<open>AVAILABLE_MODELS\<close>.\<close>

definition extract_with_models ::
  "env \<Rightarrow> string list \<Rightarrow> file_data \<Rightarrow> files \<Rightarrow> (js_error + entry list) \<times> files" where
  "extract_with_models env models fileData fs =
     (case readFile fs (path fileData) of
        Inl e \<Rightarrow> cleanup_and_throw env fileData e fs
      | Inr pdfBuffer \<Rightarrow>
     case pdfParse env pdfBuffer of
        Inl e \<Rightarrow> cleanup_and_throw env fileData e fs
      | Inr extractedText \<Rightarrow>
          (let results = process_models env extractedText [] models
           in case fs_remove env (path fileData) fs of
                (Some e, fs') \<Rightarrow> cleanup_and_throw env fileData e fs'
              | (None, fs') \<Rightarrow> (Inr results, fs')))"

definition extractBillDataWithAllModels ::
  "env \<Rightarrow> file_data \<Rightarrow> files \<Rightarrow> (js_error + entry list) \<times> files" where
  "extractBillDataWithAllModels env = extract_with_models env AVAILABLE_MODELS"

section \<open>Example runs\<close>

text \<open>
  One upload in the scratch storage, and collaborators for the runs that the theorems
  below evaluate: an API that answers every request with a given reply text, an API that
  is down, an API that refuses one model, and an operating system that refuses to remove
  the file.
\<close>

definition upload :: file_data where
  "upload = \<lparr>path = ''uploads/1730600000000-123456789.pdf'', originalname = ''bill.pdf''\<rparr>"

definition scratch :: files where
  "scratch = Map.empty(''uploads/1730600000000-123456789.pdf'' \<mapsto> ''%PDF-1.4'')"

definition usage_1545 :: usage_value where
  "usage_1545 =
     UObject \<lparr>prompt_tokens = None, input_tokens = Some 1200, completion_tokens = None,
              output_tokens = Some 345, total_tokens = Some 1545, total_ms = None\<rparr>"

definition replying :: "string \<Rightarrow> env" where
  "replying text =
     \<lparr>pdfParse = (\<lambda>bytes. Inr ''Bill No 42''),
      responses_create = (\<lambda>r. Inr \<lparr>output_text = text, response_usage = usage_1545\<rparr>),
      remove_error = (\<lambda>p. None)\<rparr>"

definition api_down :: env where
  "api_down =
     \<lparr>pdfParse = (\<lambda>bytes. Inr ''Bill No 42''),
      responses_create = (\<lambda>r. Inl (Error ''Connection error.'')),
      remove_error = (\<lambda>p. None)\<rparr>"

definition refusing :: "string \<Rightarrow> string \<Rightarrow> env" where
  "refusing refused text =
     \<lparr>pdfParse = (\<lambda>bytes. Inr ''Bill No 42''),
      responses_create =
        (\<lambda>r. if req_model r = refused then Inl (Error ''404 The model does not exist'')
             else Inr \<lparr>output_text = text, response_usage = usage_1545\<rparr>),
      remove_error = (\<lambda>p. None)\<rparr>"

definition remove_refused :: "string \<Rightarrow> env" where
  "remove_refused text =
     \<lparr>pdfParse = (\<lambda>bytes. Inr ''Bill No 42''),
      responses_create = (\<lambda>r. Inr \<lparr>output_text = text, response_usage = usage_1545\<rparr>),
      remove_error = (\<lambda>p. Some (Error ''EPERM: operation not permitted, unlink''))\<rparr>"

section \<open>Properties of the token counts and of the cost accounting\<close>

subsection \<open>Helper facts: the numbers of one price computation\<close>

lemma fl_one: "fl 1 = 1"
  by code_simp

lemma fl_five_halves: "fl (5 / 2) = 5 / 2"
  by code_simp

lemma toFixed_6_five_halves: "toFixed 6 (5 / 2) = ''2.500000''"
  by code_simp

lemma toFixed_2_five_halves: "toFixed 2 (5 / 2) = ''2.50''"
  by code_simp

lemma prices_gpt4o:
  "prices ''gpt-4o'' = Own \<lparr>p_input = 5 / 2, p_cachedInput = fl (5 / 4), p_output = fl 10\<rparr>"
  by (simp add: prices_def price_table_def fl_five_halves)

text \<open>
  A model identifier that is neither a key of the price table nor the name of a property
  that objects inherit is priced at the rates of \<^verbatim>\<open>gpt-4o\<close>: the result is the one for
  \<^verbatim>\<open>gpt-4o\<close>, under the caller's model name.
\<close>

lemma calculatePrice_default_rates:
  assumes "map_of price_table m = None" and "m \<notin> set object_prototype_keys"
  shows "calculatePrice m (UObject u) =
         map_sum id (\<lambda>p. p\<lparr>model := m\<rparr>) (calculatePrice ''gpt-4o'' (UObject u))"
  using assms
  by (simp add: calculatePrice_def invalid_usage_def prices_def price_table_def price_of_def Let_def)

subsection \<open>Unknown model identifiers\<close>

text \<open>
  Claim C5 says that for every model identifier that is not in the price table,
  \<^verbatim>\<open>calculatePrice\<close> uses the rates of \<^verbatim>\<open>gpt-4o\<close> and never fails. The source says the
  same in its comment (\<^verbatim>\<open>Default to gpt-4o if model not found\<close>), but \<^verbatim>\<open>prices[model]\<close>
  also finds inherited properties: \<^verbatim>\<open>constructor\<close> is not in the table, and for it
  \<^verbatim>\<open>calculatePrice\<close> throws a TypeError instead of returning a pricing result.
\<close>

theorem calculatePrice_inherited_property:
  "map_of price_table ''constructor'' = None \<and>
   calculatePrice ''constructor''
     (UObject \<lparr>prompt_tokens = Some 1000000, input_tokens = None, completion_tokens = Some 0,
               output_tokens = None, total_tokens = None, total_ms = None\<rparr>)
   = Inl (TypeError ''Cannot read properties of undefined (reading 'toFixed')'')"
  by (simp add: calculatePrice_def invalid_usage_def prices_def price_table_def object_prototype_keys_def)

subsection \<open>Malformed usage\<close>

text \<open>
  Claim C6: for every malformed usage argument (\<^verbatim>\<open>null\<close>, \<^verbatim>\<open>undefined\<close>, or a value that is
  not an object), \<^verbatim>\<open>calculatePrice\<close> does not throw: it returns a pricing result, under the
  caller's model name, whose three rates and three costs are all the string \<^verbatim>\<open>N/A\<close>.
\<close>

theorem calculatePrice_malformed_usage:
  assumes "v = UNull \<or> v = UUndefined \<or> typeof v \<noteq> ''object''"
  shows "calculatePrice m v =
         Inr \<lparr>model = m,
              rates = \<lparr>inputRate = ''N/A'', cachedInputRate = ''N/A'', outputRate = ''N/A''\<rparr>,
              costs = \<lparr>inputCost = ''N/A'', outputCost = ''N/A'', totalCost = ''N/A''\<rparr>\<rparr>"
  using assms by (auto simp: calculatePrice_def invalid_usage_def not_available_def)

theorem calculatePrice_malformed_usage_witness:
  "calculatePrice ''o3-mini'' UNull =
     Inr \<lparr>model = ''o3-mini'',
          rates = \<lparr>inputRate = ''N/A'', cachedInputRate = ''N/A'', outputRate = ''N/A''\<rparr>,
          costs = \<lparr>inputCost = ''N/A'', outputCost = ''N/A'', totalCost = ''N/A''\<rparr>\<rparr>
   \<and> calculatePrice ''o3-mini'' UUndefined = calculatePrice ''o3-mini'' UNull
   \<and> calculatePrice ''o3-mini'' (UNumber 7) = calculatePrice ''o3-mini'' UNull
   \<and> calculatePrice ''o3-mini'' (UString ''12 tokens'') = calculatePrice ''o3-mini'' UNull"
  using calculatePrice_malformed_usage [of UNull "''o3-mini''"]
    calculatePrice_malformed_usage [of UUndefined "''o3-mini''"]
    calculatePrice_malformed_usage [of "UNumber 7" "''o3-mini''"]
    calculatePrice_malformed_usage [of "UString ''12 tokens''" "''o3-mini''"]
  by simp

subsection \<open>One million prompt tokens at the rate of \<^verbatim>\<open>gpt-4o\<close>\<close>

text \<open>
  Claim C9: for the usage \<^verbatim>\<open>{prompt_tokens: 1000000, completion_tokens: 0}\<close> and the model
  \<^verbatim>\<open>gpt-4o\<close>, whose input rate is 2.50 dollars per million tokens, \<^verbatim>\<open>calculatePrice\<close>
  returns a pricing result whose input cost is exactly the string \<^verbatim>\<open>$2.500000\<close>. Every
  intermediate value (1, 2.5) is a binary64, so nothing is rounded on the way.
\<close>

theorem calculatePrice_gpt4o_million:
  "\<exists>p. calculatePrice ''gpt-4o''
         (UObject \<lparr>prompt_tokens = Some 1000000, input_tokens = None, completion_tokens = Some 0,
                   output_tokens = None, total_tokens = None, total_ms = None\<rparr>) = Inr p
       \<and> inputRate (rates p) = ''$2.50 per million tokens''
       \<and> inputCost (costs p) = ''$2.500000''"
  by (simp add: calculatePrice_def invalid_usage_def prices_gpt4o price_of_def Let_def
      promptTokens_def js_or_def truthy_count_def or_number_def js_div_def js_mul_def fl_one
      fl_five_halves per_million_def dollars_def toFixed_6_five_halves toFixed_2_five_halves)

subsection \<open>Normalized token counts\<close>

text \<open>
  Claim C7: for every usage object without a \<^verbatim>\<open>total_tokens\<close> field, the total of the
  normalized usage is the normalized prompt count plus the normalized completion count;
  the prompt count is \<^verbatim>\<open>prompt_tokens\<close> when that is a non-zero count and else
  \<^verbatim>\<open>input_tokens\<close> (0 when absent), and the completion count is \<^verbatim>\<open>completion_tokens\<close> or
  else \<^verbatim>\<open>output_tokens\<close> in the same way.
\<close>

theorem normalize_usage_total:
  assumes "total_tokens u = None"
  shows "usage_total_tokens (normalize_usage u)
           = usage_prompt_tokens (normalize_usage u) + usage_completion_tokens (normalize_usage u)
         \<and> usage_prompt_tokens (normalize_usage u)
           = (case prompt_tokens u of Some (Suc n) \<Rightarrow> Suc n
              | _ \<Rightarrow> (case input_tokens u of Some k \<Rightarrow> k | None \<Rightarrow> 0))
         \<and> usage_completion_tokens (normalize_usage u)
           = (case completion_tokens u of Some (Suc n) \<Rightarrow> Suc n
              | _ \<Rightarrow> (case output_tokens u of Some k \<Rightarrow> k | None \<Rightarrow> 0))"
  using assms
  by (auto simp: normalize_usage_def totalTokens_def promptTokens_def completionTokens_def
      or_number_def js_or_def truthy_count_def split: option.splits nat.splits)

theorem normalize_usage_total_witness:
  "usage_total_tokens (normalize_usage
      \<lparr>prompt_tokens = None, input_tokens = Some 1200, completion_tokens = None,
       output_tokens = Some 345, total_tokens = None, total_ms = None\<rparr>) = 1545"
  using normalize_usage_total [of
      "\<lparr>prompt_tokens = None, input_tokens = Some 1200, completion_tokens = None,
        output_tokens = Some 345, total_tokens = None, total_ms = None\<rparr>"]
  by simp

text \<open>
  Claim C10: a count of 0 is treated as absent. When \<^verbatim>\<open>total_tokens\<close> is present and 0
  while \<^verbatim>\<open>prompt_tokens\<close> and \<^verbatim>\<open>completion_tokens\<close> are positive, the normalized total is
  their sum, not 0; and a \<^verbatim>\<open>prompt_tokens\<close> of 0 gives way to \<^verbatim>\<open>input_tokens\<close> when that
  field is present.
\<close>

theorem zero_count_is_absent:
  "(total_tokens u = Some 0 \<and> prompt_tokens u = Some p \<and> 0 < p
      \<and> completion_tokens u = Some c \<and> 0 < c
     \<longrightarrow> usage_total_tokens (normalize_usage u) = p + c
        \<and> usage_total_tokens (normalize_usage u) \<noteq> 0
        \<and> usage_prompt_tokens (normalize_usage u) = p
        \<and> usage_completion_tokens (normalize_usage u) = c)
   \<and> (prompt_tokens u = Some 0 \<and> input_tokens u = Some k
     \<longrightarrow> usage_prompt_tokens (normalize_usage u) = k)"
  by (auto simp: normalize_usage_def totalTokens_def promptTokens_def completionTokens_def
      or_number_def js_or_def truthy_count_def)

theorem zero_count_is_absent_witness:
  "usage_total_tokens (normalize_usage
      \<lparr>prompt_tokens = Some 100, input_tokens = None, completion_tokens = Some 20,
       output_tokens = None, total_tokens = Some 0, total_ms = None\<rparr>) = 120
   \<and> usage_prompt_tokens (normalize_usage
      \<lparr>prompt_tokens = Some 0, input_tokens = Some 77, completion_tokens = Some 20,
       output_tokens = None, total_tokens = None, total_ms = None\<rparr>) = 77"
  using zero_count_is_absent [of
      "\<lparr>prompt_tokens = Some 100, input_tokens = None, completion_tokens = Some 20,
        output_tokens = None, total_tokens = Some 0, total_ms = None\<rparr>" 100 20 0]
    zero_count_is_absent [of
      "\<lparr>prompt_tokens = Some 0, input_tokens = Some 77, completion_tokens = Some 20,
        output_tokens = None, total_tokens = None, total_ms = None\<rparr>" 0 0 77]
  by simp

section \<open>Properties of the pipeline\<close>

subsection \<open>Helper facts: replies that \<^verbatim>\<open>JSON.parse\<close> accepts\<close>

lemma JSON_parse_array: "JSON_parse ''[1,2,3]'' = Some (JArray [JNumber 1, JNumber 2, JNumber 3])"
  by code_simp

lemma JSON_parse_null: "JSON_parse ''null'' = Some JNull"
  by code_simp

lemmas run_defs =
  extractBillData_def readFile_def fs_remove_def call_model_def parse_content_def
  upload_def scratch_def replying_def api_down_def remove_refused_def usage_1545_def
  calculatePrice_def invalid_usage_def prices_def price_table_def

text \<open>
  A reply that \<^verbatim>\<open>JSON.parse\<close> reads as an array passes the reconciliation and the check of
  line 424: an array is truthy and its \<^verbatim>\<open>typeof\<close> is \<^verbatim>\<open>object\<close>.
\<close>

lemma array_reply_accepted:
  assumes "JSON_parse content = Some (JArray xs)"
  shows "parse_content msg content = Inr (JArray xs)" and "\<not> invalid_data (JArray xs)"
  using assms by (simp_all add: parse_content_def invalid_data_def)

subsection \<open>A reply that is an array\<close>

text \<open>
  Claim C1 says that a reply whose text is valid JSON for an array, such as \<^verbatim>\<open>[1,2,3]\<close>, makes
  \<^verbatim>\<open>extractBillData\<close> fail with the invalid-data-format error. The check of line 424 is
  meant to reject what is not an object, but it tests \<^verbatim>\<open>typeof extractedData\<close>, which is
  \<^verbatim>\<open>object\<close> for an array too: for the reply \<^verbatim>\<open>[1,2,3]\<close> the function returns, and the
  extracted data is the array.
\<close>

theorem extractBillData_array_reply:
  "map_sum message data (fst (extractBillData (replying ''[1,2,3]'') upload ''o3-mini'' scratch))
     = Inr (JArray [JNumber 1, JNumber 2, JNumber 3])"
  by (simp add: run_defs JSON_parse_array invalid_data_def)

subsection \<open>The scratch file after a failed request\<close>

text \<open>
  Claim C4 says that on every exit path the scratch file is deleted before the request
  completes, and that a failure of the deletion is swallowed, for both functions. In
  \<^verbatim>\<open>extractBillData\<close> the \<^verbatim>\<open>catch\<close> only logs and throws again (the \<^verbatim>\<open>catch\<close> of
  \<^verbatim>\<open>extractBillDataWithAllModels\<close> removes the file): when the API is down the request
  fails and the file is still in the scratch storage. And in
  \<^verbatim>\<open>extractBillDataWithAllModels\<close> the removal after the loop is not guarded: when it is
  refused, its error is what the request throws.
\<close>

theorem extractBillData_keeps_file_on_error:
  "extractBillData api_down upload ''o3-mini'' scratch
     = (Inl (Error ''Failed to process with model o3-mini: Connection error.''), scratch)
   \<and> scratch (path upload) = Some ''%PDF-1.4''
   \<and> (\<exists>fs. extractBillDataWithAllModels (remove_refused ''{}'') upload scratch
          = (Inl (Error ''EPERM: operation not permitted, unlink''), fs))"
  by (simp add: run_defs extractBillDataWithAllModels_def extract_with_models_def
      cleanup_and_throw_def Let_def)

text \<open>
  What does hold for the scratch file: a call of \<^verbatim>\<open>extractBillData\<close> that returns has removed
  it, and \<^verbatim>\<open>extractBillDataWithAllModels\<close> has removed it on every exit path, with every or
  some or no model failing, as long as the removal itself is not refused.
\<close>

lemma extractBillData_success_removes_file:
  assumes "extractBillData env f m fs = (Inr r, fs')"
  shows "fs' = fs(path f := None)"
  using assms unfolding extractBillData_def fs_remove_def
  by (auto split: sum.splits prod.splits option.splits if_splits)

lemma extract_with_models_removes_file:
  assumes "remove_error env (path f) = None" and "path f \<noteq> []"
  shows "snd (extract_with_models env models f fs) = fs(path f := None)"
  using assms unfolding extract_with_models_def cleanup_and_throw_def fs_remove_def
  by (auto simp: Let_def split: sum.splits)

subsection \<open>Helper facts: the two regular expressions on a reply around \<^verbatim>\<open>{"A":"1"}\<close>\<close>

lemma JSON_parse_A1: \<open>JSON_parse ''{"A":"1"}'' = Some (JObject [(''A'', JString ''1'')])\<close>
  by code_simp

lemma JSON_parse_backquote: "JSON_parse (CHR 0x60 # s) = None"
  by (simp add: JSON_parse_def lex.simps is_json_ws_def is_digit_def code_unit_def)

lemma search_hit: "s \<noteq> [] \<Longrightarrow> here s = Some m \<Longrightarrow> search here s = Some m"
  by (cases s) simp_all

lemma fence_at_no_fence: "\<not> prefix fence s \<Longrightarrow> fence_at s = None"
  by (simp add: fence_at_def)

lemma search_fence_none: "\<not> sublist fence s \<Longrightarrow> search fence_at s = None"
proof (induction s)
  case Nil
  have "fence_at [] = None" by (simp add: fence_at_def fence_def)
  then show ?case by (simp only: search.simps)
next
  case (Cons c cs)
  from Cons.prems have "\<not> prefix fence (c # cs) \<and> \<not> sublist fence cs"
    by (simp add: sublist_Cons_right)
  then have 1: "\<not> prefix fence (c # cs)" and "\<not> sublist fence cs" by (rule conjunct1, rule conjunct2)
  then have 2: "search fence_at cs = None" by (intro Cons.IH)
  have 3: "fence_at (c # cs) = None" using 1 by (rule fence_at_no_fence)
  show ?case by (simp only: search.simps 2 3 option.case)
qed

lemma search_brace_skip: "CHR ''{'' \<notin> set p \<Longrightarrow> search brace_at (p @ r) = search brace_at r"
proof (induction p)
  case Nil
  then show ?case by simp
next
  case (Cons c p)
  from Cons.prems have "brace_at (c # p @ r) = None" by (auto simp: brace_at_def)
  moreover from Cons.prems have "CHR ''{'' \<notin> set p" by simp
  ultimately show ?case using Cons.IH by simp
qed

lemma dropWhile_last_brace:
  assumes "CHR ''}'' \<notin> set q"
  shows "dropWhile (\<lambda>x. x \<noteq> CHR ''}'') (rev q @ CHR ''}'' # r) = CHR ''}'' # r"
proof -
  have "dropWhile (\<lambda>x. x \<noteq> CHR ''}'') (rev q @ CHR ''}'' # r)
          = dropWhile (\<lambda>x. x \<noteq> CHR ''}'') (CHR ''}'' # r)"
    by (rule dropWhile_append2) (use assms in auto)
  then show ?thesis by simp
qed

lemma brace_at_A1:
  assumes "CHR ''}'' \<notin> set q"
  shows \<open>brace_at (''{"A":"1"}'' @ q) = Some ''{"A":"1"}''\<close>
  using dropWhile_last_brace [OF assms] by (simp add: brace_at_def)


lemma lazy_group_closes: "closes r \<Longrightarrow> lazy_group r = Some ([], r)"
  by (cases r) simp_all

lemma closes_spaces:
  assumes "list_all is_space w"
  shows "closes (w @ fence @ post)"
proof -
  have "dropWhile is_space (w @ fence @ post) = dropWhile is_space (fence @ post)"
    by (rule dropWhile_append2) (use assms in \<open>auto simp: list_all_iff\<close>)
  then show ?thesis by (simp add: closes_def fence_def is_space_def)
qed

lemma lazy_group_A1:
  assumes "closes r"
  shows \<open>lazy_group (''{"A":"1"}'' @ r) = Some (''{"A":"1"}'', r)\<close>
proof -
  have "\<not> closes (c # cs)" if "\<not> is_space c" "c \<noteq> CHR 0x60" for c cs
    using that by (simp add: closes_def fence_def)
  then show ?thesis
    using lazy_group_closes [OF assms] by (simp add: is_space_def cons_fst_def)
qed

lemma spaces_then_brace:
  assumes "list_all is_space w"
  shows "takeWhile is_space (w @ CHR ''{'' # r) = w"
    and "dropWhile is_space (w @ CHR ''{'' # r) = CHR ''{'' # r"
    and "\<not> prefix ''json'' (w @ CHR ''{'' # r)"
proof -
  have w: "\<forall>x \<in> set w. is_space x" using assms by (simp add: list_all_iff)
  have nb: "\<not> is_space CHR ''{''" by (simp add: is_space_def)
  have "takeWhile is_space (w @ CHR ''{'' # r) = w @ takeWhile is_space (CHR ''{'' # r)"
    by (rule takeWhile_append2) (use w in auto)
  then show "takeWhile is_space (w @ CHR ''{'' # r) = w" using nb by simp
  have "dropWhile is_space (w @ CHR ''{'' # r) = dropWhile is_space (CHR ''{'' # r)"
    by (rule dropWhile_append2) (use w in auto)
  then show "dropWhile is_space (w @ CHR ''{'' # r) = CHR ''{'' # r" using nb by simp
  show "\<not> prefix ''json'' (w @ CHR ''{'' # r)"
  proof (cases w)
    case Nil
    then show ?thesis by simp
  next
    case (Cons x xs)
    with w have "is_space x" by simp
    then have "x \<noteq> CHR ''j''" by (auto simp: is_space_def)
    with Cons show ?thesis by simp
  qed
qed


lemma spaces_then_fence:
  assumes "list_all is_space w"
  shows "takeWhile is_space (w @ fence @ post) = w"
proof -
  have "takeWhile is_space (w @ fence @ post) = w @ takeWhile is_space (fence @ post)"
    by (rule takeWhile_append2) (use assms in \<open>auto simp: list_all_iff\<close>)
  then show ?thesis by (simp add: fence_def is_space_def)
qed

lemma fence_at_parts:
  assumes "tag = ''json'' \<or> (tag = [] \<and> \<not> prefix ''json'' txt)"
    and "takeWhile is_space txt = w"
    and "dropWhile is_space txt = t"
    and "lazy_group t = Some (g, r)"
  shows "fence_at (fence @ tag @ txt) = Some (fence @ tag @ w @ g @ takeWhile is_space r @ fence, g)"
  using assms by (auto simp: fence_at_def fence_def Let_def)

lemma fence_at_A1:
  assumes "tag = ''json'' \<or> tag = []" and "list_all is_space w1" and "list_all is_space w2"
  shows \<open>fence_at (fence @ tag @ w1 @ ''{"A":"1"}'' @ w2 @ fence @ post)
           = Some (fence @ tag @ w1 @ ''{"A":"1"}'' @ w2 @ fence, ''{"A":"1"}'')\<close>
proof -
  let ?obj = \<open>''{"A":"1"}''\<close>
  let ?R = "w2 @ fence @ post"
  have s: "takeWhile is_space (w1 @ ?obj @ ?R) = w1"
    "dropWhile is_space (w1 @ ?obj @ ?R) = ?obj @ ?R"
    "\<not> prefix ''json'' (w1 @ ?obj @ ?R)"
    using spaces_then_brace [OF assms(2)] by simp_all
  have lg: "lazy_group (?obj @ ?R) = Some (?obj, ?R)"
    by (rule lazy_group_A1) (rule closes_spaces [OF assms(3)])
  have tw: "takeWhile is_space ?R = w2" by (rule spaces_then_fence [OF assms(3)])
  have "fence_at (fence @ tag @ (w1 @ ?obj @ ?R))
          = Some (fence @ tag @ w1 @ ?obj @ takeWhile is_space ?R @ fence, ?obj)"
    by (rule fence_at_parts [OF _ s(1) s(2) lg]) (use assms(1) s(3) in blast)
  then show ?thesis unfolding tw by simp
qed

lemma raw_reply:
  \<open>parse_content msg ''{"A":"1"}'' = Inr (JObject [(''A'', JString ''1'')])\<close>
  unfolding parse_content_def by (simp only: JSON_parse_A1 option.case)

lemma attempts_in_order:
  "JSON_parse content = Some v \<Longrightarrow> parse_content msg content = Inr v"
  "JSON_parse content = None \<Longrightarrow> search fence_at content = Some (m, g) \<Longrightarrow> g \<noteq> []
     \<Longrightarrow> parse_content msg content
          = (case JSON_parse g of Some v' \<Rightarrow> Inr v' | None \<Rightarrow> Inl (Error msg))"
  "JSON_parse content = None \<Longrightarrow> search fence_at content = None
     \<Longrightarrow> search brace_at content = Some m
     \<Longrightarrow> parse_content msg content
          = (case JSON_parse m of Some v' \<Rightarrow> Inr v' | None \<Rightarrow> Inl (Error msg))"
  "JSON_parse content = None \<Longrightarrow> search fence_at content = None
     \<Longrightarrow> search brace_at content = None
     \<Longrightarrow> parse_content msg content = Inl (Error msg)"
  unfolding parse_content_def jsonMatch_def jsonString_def
  by (simp_all split: option.split)

lemma fenced_reply:
  assumes "tag = ''json'' \<or> tag = []" and "list_all is_space w1" and "list_all is_space w2"
  shows \<open>parse_content msg (fence @ tag @ w1 @ ''{"A":"1"}'' @ w2 @ fence @ post)
           = Inr (JObject [(''A'', JString ''1'')])\<close>
proof -
  let ?obj = \<open>''{"A":"1"}''\<close>
  define c where "c = fence @ tag @ w1 @ ?obj @ w2 @ fence @ post"
  define m where "m = fence @ tag @ w1 @ ?obj @ w2 @ fence"
  have c: "c = CHR 0x60 # tl c" by (simp add: c_def fence_def)
  have "JSON_parse c = None" by (subst c) (rule JSON_parse_backquote)
  moreover have "fence_at c = Some (m, ?obj)"
    unfolding c_def m_def using assms by (rule fence_at_A1)
  then have "search fence_at c = Some (m, ?obj)"
    by (rule search_hit [rotated]) (simp add: c_def fence_def)
  ultimately have "parse_content msg c
      = (case JSON_parse ?obj of Some v' \<Rightarrow> Inr v' | None \<Rightarrow> Inl (Error msg))"
    by (intro attempts_in_order(2)) simp_all
  then show ?thesis by (simp only: c_def JSON_parse_A1 option.case)
qed

lemma embedded_reply:
  assumes \<open>JSON_parse (p @ ''{"A":"1"}'' @ q) = None\<close>
    and \<open>\<not> sublist fence (p @ ''{"A":"1"}'' @ q)\<close>
    and "CHR ''{'' \<notin> set p" and "CHR ''}'' \<notin> set q"
  shows \<open>parse_content msg (p @ ''{"A":"1"}'' @ q) = Inr (JObject [(''A'', JString ''1'')])\<close>
proof -
  let ?obj = \<open>''{"A":"1"}''\<close>
  define c where "c = p @ ?obj @ q"
  have 1: "JSON_parse c = None" using assms(1) by (simp only: c_def)
  have 2: "search fence_at c = None"
    unfolding c_def using assms(2) by (rule search_fence_none)
  have "search brace_at c = search brace_at (?obj @ q)"
    unfolding c_def using assms(3) by (rule search_brace_skip)
  moreover have "brace_at (?obj @ q) = Some ?obj" using assms(4) by (rule brace_at_A1)
  then have "search brace_at (?obj @ q) = Some ?obj"
    by (rule search_hit [rotated]) simp
  ultimately have 3: "search brace_at c = Some ?obj" by simp
  have "parse_content msg c
      = (case JSON_parse ?obj of Some v' \<Rightarrow> Inr v' | None \<Rightarrow> Inl (Error msg))"
    using 1 2 3 by (rule attempts_in_order(3))
  then show ?thesis by (simp only: c_def JSON_parse_A1 option.case)
qed


subsection \<open>One reply, three ways of delivery\<close>

text \<open>
  Claim C2: the reply \<^verbatim>\<open>{"A":"1"}\<close> is reconciled to the same parsed object whether it is
  delivered raw, wrapped in a fenced code block (with or without the tag \<^verbatim>\<open>json\<close>, any
  white space inside the fences, anything after the closing fence), or embedded in prose:
  text \<open>p\<close> before it and \<open>q\<close> after it that make the whole reply no JSON, hold no fence,
  and leave the span from the first opening brace to the last closing brace as it is.
  The order of the attempts is \<^verbatim>\<open>JSON.parse\<close> on the whole reply, then the interior of
  the first fenced block, then the brace-delimited span; when none applies the
  reconciliation fails with its one error.
\<close>

theorem reply_parses_identically:
  \<open>parse_content msg ''{"A":"1"}'' = Inr (JObject [(''A'', JString ''1'')])
   \<and> ((tag = ''json'' \<or> tag = []) \<and> list_all is_space w1 \<and> list_all is_space w2
        \<longrightarrow> parse_content msg (fence @ tag @ w1 @ ''{"A":"1"}'' @ w2 @ fence @ post)
              = Inr (JObject [(''A'', JString ''1'')]))
   \<and> (JSON_parse (p @ ''{"A":"1"}'' @ q) = None \<and> \<not> sublist fence (p @ ''{"A":"1"}'' @ q)
        \<and> CHR ''{'' \<notin> set p \<and> CHR ''}'' \<notin> set q
        \<longrightarrow> parse_content msg (p @ ''{"A":"1"}'' @ q) = Inr (JObject [(''A'', JString ''1'')]))
   \<and> (JSON_parse content = Some v \<longrightarrow> parse_content msg content = Inr v)
   \<and> (JSON_parse content = None \<and> search fence_at content = Some (m, g) \<and> g \<noteq> []
        \<longrightarrow> parse_content msg content
              = (case JSON_parse g of Some v' \<Rightarrow> Inr v' | None \<Rightarrow> Inl (Error msg)))
   \<and> (JSON_parse content = None \<and> search fence_at content = None
        \<and> search brace_at content = Some m
        \<longrightarrow> parse_content msg content
              = (case JSON_parse m of Some v' \<Rightarrow> Inr v' | None \<Rightarrow> Inl (Error msg)))
   \<and> (JSON_parse content = None \<and> search fence_at content = None
        \<and> search brace_at content = None
        \<longrightarrow> parse_content msg content = Inl (Error msg))\<close>
proof (intro conjI impI)
  show \<open>parse_content msg ''{"A":"1"}'' = Inr (JObject [(''A'', JString ''1'')])\<close>
    by (rule raw_reply)
next
  assume "(tag = ''json'' \<or> tag = []) \<and> list_all is_space w1 \<and> list_all is_space w2"
  then have "tag = ''json'' \<or> tag = []" "list_all is_space w1" "list_all is_space w2"
    by blast+
  then show \<open>parse_content msg (fence @ tag @ w1 @ ''{"A":"1"}'' @ w2 @ fence @ post)
                = Inr (JObject [(''A'', JString ''1'')])\<close>
    by (rule fenced_reply)
next
  assume \<open>JSON_parse (p @ ''{"A":"1"}'' @ q) = None \<and> \<not> sublist fence (p @ ''{"A":"1"}'' @ q)
    \<and> CHR ''{'' \<notin> set p \<and> CHR ''}'' \<notin> set q\<close>
  then have \<open>JSON_parse (p @ ''{"A":"1"}'' @ q) = None\<close>
    \<open>\<not> sublist fence (p @ ''{"A":"1"}'' @ q)\<close> "CHR ''{'' \<notin> set p" "CHR ''}'' \<notin> set q"
    by blast+
  then show \<open>parse_content msg (p @ ''{"A":"1"}'' @ q) = Inr (JObject [(''A'', JString ''1'')])\<close>
    by (rule embedded_reply)
next
  assume "JSON_parse content = Some v"
  then show "parse_content msg content = Inr v" by (rule attempts_in_order(1))
next
  assume "JSON_parse content = None \<and> search fence_at content = Some (m, g) \<and> g \<noteq> []"
  then have "JSON_parse content = None" "search fence_at content = Some (m, g)" "g \<noteq> []"
    by blast+
  then show "parse_content msg content
      = (case JSON_parse g of Some v' \<Rightarrow> Inr v' | None \<Rightarrow> Inl (Error msg))"
    by (rule attempts_in_order(2))
next
  assume "JSON_parse content = None \<and> search fence_at content = None
    \<and> search brace_at content = Some m"
  then have "JSON_parse content = None" "search fence_at content = None"
    "search brace_at content = Some m"
    by blast+
  then show "parse_content msg content
      = (case JSON_parse m of Some v' \<Rightarrow> Inr v' | None \<Rightarrow> Inl (Error msg))"
    by (rule attempts_in_order(3))
next
  assume "JSON_parse content = None \<and> search fence_at content = None
    \<and> search brace_at content = None"
  then have "JSON_parse content = None" "search fence_at content = None"
    "search brace_at content = None"
    by blast+
  then show "parse_content msg content = Inl (Error msg)" by (rule attempts_in_order(4))
qed

text \<open>
  The instances: the reply in a fenced block tagged \<^verbatim>\<open>json\<close>, with a line feed on either
  side; the reply inside a sentence; and a reply in which a brace-delimited span comes
  before a fenced block, where the interior of the fenced block is what is parsed.
\<close>

lemma prose_is_no_json:
  \<open>JSON_parse (''Here is the data: '' @ ''{"A":"1"}'' @ '' I hope it helps.'') = None\<close>
  by code_simp

lemma prose_has_no_fence:
  \<open>\<not> sublist fence (''Here is the data: '' @ ''{"A":"1"}'' @ '' I hope it helps.'')\<close>
  by code_simp

lemma prose_braces:
  "CHR ''{'' \<notin> set ''Here is the data: ''" "CHR ''}'' \<notin> set '' I hope it helps.''"
  by code_simp+

lemma brace_before_fence:
  \<open>JSON_parse (''See {"B":"2"} or '' @ fence @ ''json {"A":"1"} '' @ fence) = None\<close>
  \<open>search fence_at (''See {"B":"2"} or '' @ fence @ ''json {"A":"1"} '' @ fence)
     = Some (fence @ ''json {"A":"1"} '' @ fence, ''{"A":"1"}'')\<close>
  by code_simp+

lemma line_feed_is_space: "list_all is_space [CHR 0x0A]"
  by code_simp

theorem reply_parses_identically_witness:
  \<open>parse_content ''Failed to parse bill data from OpenAI response''
       (fence @ ''json'' @ [CHR 0x0A] @ ''{"A":"1"}'' @ [CHR 0x0A] @ fence @ [])
     = Inr (JObject [(''A'', JString ''1'')])
   \<and> parse_content ''Failed to parse bill data from OpenAI response''
       (''Here is the data: '' @ ''{"A":"1"}'' @ '' I hope it helps.'')
     = Inr (JObject [(''A'', JString ''1'')])
   \<and> parse_content ''Failed to parse bill data from OpenAI response''
       (''See {"B":"2"} or '' @ fence @ ''json {"A":"1"} '' @ fence)
     = Inr (JObject [(''A'', JString ''1'')])\<close>
proof -
  note T = reply_parses_identically
    [where msg = "''Failed to parse bill data from OpenAI response''"
       and tag = "''json''" and ?w1.0 = "[CHR 0x0A]" and ?w2.0 = "[CHR 0x0A]" and post = "[]"
       and p = "''Here is the data: ''" and q = "'' I hope it helps.''"
       and content = \<open>''See {"B":"2"} or '' @ fence @ ''json {"A":"1"} '' @ fence\<close>
       and m = \<open>fence @ ''json {"A":"1"} '' @ fence\<close> and g = \<open>''{"A":"1"}''\<close>]
  have h1: "(''json'' = ''json'' \<or> ''json'' = []) \<and> list_all is_space [CHR 0x0A]
      \<and> list_all is_space [CHR 0x0A]"
    using line_feed_is_space by blast
  have h2: \<open>JSON_parse (''Here is the data: '' @ ''{"A":"1"}'' @ '' I hope it helps.'') = None
      \<and> \<not> sublist fence (''Here is the data: '' @ ''{"A":"1"}'' @ '' I hope it helps.'')
      \<and> CHR ''{'' \<notin> set ''Here is the data: '' \<and> CHR ''}'' \<notin> set '' I hope it helps.''\<close>
    by (intro conjI prose_is_no_json prose_has_no_fence prose_braces)
  have h3: \<open>JSON_parse (''See {"B":"2"} or '' @ fence @ ''json {"A":"1"} '' @ fence) = None
      \<and> search fence_at (''See {"B":"2"} or '' @ fence @ ''json {"A":"1"} '' @ fence)
          = Some (fence @ ''json {"A":"1"} '' @ fence, ''{"A":"1"}'')
      \<and> ''{"A":"1"}'' \<noteq> []\<close>
    by (intro conjI brace_before_fence list.distinct(2))
  have c1: \<open>parse_content ''Failed to parse bill data from OpenAI response''
       (fence @ ''json'' @ [CHR 0x0A] @ ''{"A":"1"}'' @ [CHR 0x0A] @ fence @ [])
     = Inr (JObject [(''A'', JString ''1'')])\<close>
    by (rule T [THEN conjunct2, THEN conjunct1, THEN mp, OF h1])
  have c2: \<open>parse_content ''Failed to parse bill data from OpenAI response''
       (''Here is the data: '' @ ''{"A":"1"}'' @ '' I hope it helps.'')
     = Inr (JObject [(''A'', JString ''1'')])\<close>
    by (rule T [THEN conjunct2, THEN conjunct2, THEN conjunct1, THEN mp, OF h2])
  have \<open>parse_content ''Failed to parse bill data from OpenAI response''
       (''See {"B":"2"} or '' @ fence @ ''json {"A":"1"} '' @ fence)
     = (case JSON_parse ''{"A":"1"}'' of Some v' \<Rightarrow> Inr v'
        | None \<Rightarrow> Inl (Error ''Failed to parse bill data from OpenAI response''))\<close>
    by (rule T [THEN conjunct2, THEN conjunct2, THEN conjunct2, THEN conjunct2, THEN conjunct1,
          THEN mp, OF h3])
  then have c3: \<open>parse_content ''Failed to parse bill data from OpenAI response''
       (''See {"B":"2"} or '' @ fence @ ''json {"A":"1"} '' @ fence)
     = Inr (JObject [(''A'', JString ''1'')])\<close>
    by (simp only: JSON_parse_A1 option.case)
  from c1 c2 c3 show ?thesis by (intro conjI)
qed

subsection \<open>The statuses of the single-model route\<close>

lemma extractBillData_data_usable:
  assumes "fst (extractBillData env f m fs) = Inr r"
  shows "\<not> invalid_data (data r)"
  using assms unfolding extractBillData_def
  by (auto split: sum.splits prod.splits option.splits if_splits)

lemma extractBillData_unusable_reply:
  assumes "readFile fs (path f) = Inr pdfBuffer"
    and "pdfParse env pdfBuffer = Inr extractedText"
    and "call_model env m extractedText = Inr response"
    and "parse_content ''Failed to parse bill data from OpenAI response'' (output_text response) = Inl e
         \<or> (\<exists>d. parse_content ''Failed to parse bill data from OpenAI response''
                   (output_text response) = Inr d \<and> invalid_data d)"
  shows "\<exists>e'. extractBillData env f m fs = (Inl e', fs)"
  using assms unfolding extractBillData_def by auto

text \<open>
  Claim C8 says that in single-model mode the handler responds 422 whenever extraction
  yields no usable data and 500 whenever the pipeline throws. A reply without usable
  data makes \<^verbatim>\<open>extractBillData\<close> throw (lines 417--426), so it is answered with 500: for the
  reply \<^verbatim>\<open>null\<close>, which is valid JSON and no bill data, the status is 500 and not 422.
\<close>

theorem null_reply_gives_500:
  "parse_content ''Failed to parse bill data from OpenAI response'' ''null'' = Inr JNull
   \<and> fst (post_pdf (replying ''null'') (Some upload) scratch)
       = \<lparr>status = 500, body = ErrorBody ''Invalid data format received from OpenAI''\<rparr>
   \<and> status (fst (post_pdf (replying ''null'') (Some upload) scratch)) \<noteq> 422"
  by (simp add: post_pdf_def processPdf_def run_defs JSON_parse_null invalid_data_def)

text \<open>
  Claim C8, as amended: whenever the service throws, the handler responds 500 with the
  error's message in a \<^verbatim>\<open>{status: "error", message}\<close> body; it responds 422 with such a body
  whenever the service returns a result whose data is falsy or not an object; and
  \<^verbatim>\<open>extractBillData\<close> never returns such a result, so for an uploaded file the route
  answers 200 or 500, and 500 when the reply cannot be recovered as JSON or is recovered
  as \<^verbatim>\<open>null\<close> or a scalar.
\<close>

theorem processPdf_error_statuses:
  "(service f fs = (Inl e, fs')
      \<longrightarrow> fst (processPdf service (Some f) fs)
            = \<lparr>status = 500,
               body = ErrorBody (if message e \<noteq> [] then message e else ''Failed to process PDF'')\<rparr>)
   \<and> (service f fs = (Inr r, fs') \<and> \<not> (truthy_json (data r) \<and> typeof_json (data r) = ''object'')
      \<longrightarrow> fst (processPdf service (Some f) fs)
            = \<lparr>status = 422, body = ErrorBody ''Failed to extract data from the PDF''\<rparr>)
   \<and> (status (fst (post_pdf env (Some f) fs)) = 200 \<or> status (fst (post_pdf env (Some f) fs)) = 500)
   \<and> (readFile fs (path f) = Inr pdfBuffer \<and> pdfParse env pdfBuffer = Inr extractedText
        \<and> call_model env ''o3-mini'' extractedText = Inr response
        \<and> (parse_content ''Failed to parse bill data from OpenAI response'' (output_text response)
              = Inl e
            \<or> (\<exists>d. parse_content ''Failed to parse bill data from OpenAI response''
                      (output_text response) = Inr d \<and> invalid_data d))
      \<longrightarrow> status (fst (post_pdf env (Some f) fs)) = 500)"
proof (intro conjI impI)
  assume "service f fs = (Inl e, fs')"
  then show "fst (processPdf service (Some f) fs)
      = \<lparr>status = 500,
         body = ErrorBody (if message e \<noteq> [] then message e else ''Failed to process PDF'')\<rparr>"
    by (simp add: processPdf_def)
next
  assume "service f fs = (Inr r, fs') \<and> \<not> (truthy_json (data r) \<and> typeof_json (data r) = ''object'')"
  then show "fst (processPdf service (Some f) fs)
      = \<lparr>status = 422, body = ErrorBody ''Failed to extract data from the PDF''\<rparr>"
    by (auto simp: processPdf_def)
next
  obtain x fs' where x: "extractBillData env f ''o3-mini'' fs = (x, fs')"
    by (cases "extractBillData env f ''o3-mini'' fs")
  show "status (fst (post_pdf env (Some f) fs)) = 200 \<or> status (fst (post_pdf env (Some f) fs)) = 500"
  proof (cases x)
    case (Inl err)
    with x show ?thesis by (simp add: post_pdf_def processPdf_def)
  next
    case (Inr res)
    with x have "\<not> invalid_data (data res)"
      using extractBillData_data_usable [of env f "''o3-mini''" fs res] by simp
    with x Inr show ?thesis by (simp add: post_pdf_def processPdf_def invalid_data_def)
  qed
next
  assume "readFile fs (path f) = Inr pdfBuffer \<and> pdfParse env pdfBuffer = Inr extractedText
        \<and> call_model env ''o3-mini'' extractedText = Inr response
        \<and> (parse_content ''Failed to parse bill data from OpenAI response'' (output_text response)
              = Inl e
            \<or> (\<exists>d. parse_content ''Failed to parse bill data from OpenAI response''
                      (output_text response) = Inr d \<and> invalid_data d))"
  then obtain e' where "extractBillData env f ''o3-mini'' fs = (Inl e', fs)"
    using extractBillData_unusable_reply [of fs f pdfBuffer env extractedText "''o3-mini''" response e]
    by blast
  then show "status (fst (post_pdf env (Some f) fs)) = 500"
    by (simp add: post_pdf_def processPdf_def)
qed

theorem processPdf_error_statuses_witness:
  "fst (processPdf (\<lambda>f fs. (Inl (Error ''Connection error.''), fs)) (Some upload) scratch)
     = \<lparr>status = 500, body = ErrorBody ''Connection error.''\<rparr>
   \<and> fst (processPdf
          (\<lambda>f fs. (Inr \<lparr>data = JNull,
                         usage = \<lparr>usage_prompt_tokens = 0, usage_completion_tokens = 0,
                                  usage_total_tokens = 0\<rparr>,
                         pricing = not_available ''o3-mini''\<rparr>, fs))
          (Some upload) scratch)
     = \<lparr>status = 422, body = ErrorBody ''Failed to extract data from the PDF''\<rparr>
   \<and> status (fst (post_pdf (replying ''null'') (Some upload) scratch)) = 500"
proof -
  have 1: "fst (processPdf (\<lambda>f fs. (Inl (Error ''Connection error.''), fs)) (Some upload) scratch)
      = \<lparr>status = 500, body = ErrorBody ''Connection error.''\<rparr>"
    using processPdf_error_statuses
      [where service = "\<lambda>f fs. (Inl (Error ''Connection error.''), fs)" and f = upload
         and fs = scratch and fs' = scratch and e = "Error ''Connection error.''"]
    by simp
  have 2: "fst (processPdf
          (\<lambda>f fs. (Inr \<lparr>data = JNull,
                         usage = \<lparr>usage_prompt_tokens = 0, usage_completion_tokens = 0,
                                  usage_total_tokens = 0\<rparr>,
                         pricing = not_available ''o3-mini''\<rparr>, fs))
          (Some upload) scratch)
      = \<lparr>status = 422, body = ErrorBody ''Failed to extract data from the PDF''\<rparr>"
    using processPdf_error_statuses
      [where service = "\<lambda>f fs. (Inr \<lparr>data = JNull,
                         usage = \<lparr>usage_prompt_tokens = 0, usage_completion_tokens = 0,
                                  usage_total_tokens = 0\<rparr>,
                         pricing = not_available ''o3-mini''\<rparr>, fs)" and f = upload
         and fs = scratch and fs' = scratch
         and r = "\<lparr>data = JNull,
                         usage = \<lparr>usage_prompt_tokens = 0, usage_completion_tokens = 0,
                                  usage_total_tokens = 0\<rparr>,
                         pricing = not_available ''o3-mini''\<rparr>"]
    by simp
  have 3: "status (fst (post_pdf (replying ''null'') (Some upload) scratch)) = 500"
    using processPdf_error_statuses
      [where env = "replying ''null''" and f = upload and fs = scratch
         and pdfBuffer = "''%PDF-1.4''" and extractedText = "''Bill No 42''"
         and response = "\<lparr>output_text = ''null'', response_usage = usage_1545\<rparr>"]
    by (simp add: readFile_def scratch_def upload_def replying_def call_model_def
        parse_content_def JSON_parse_null invalid_data_def)
  from 1 2 3 show ?thesis by (intro conjI)
qed

subsection \<open>Multi-model mode: one entry per model\<close>

lemma process_models_append:
  "process_models env extractedText results ms
     = results @ map (model_entry env extractedText) ms"
  by (induction ms arbitrary: results) simp_all

lemma try_model_complete:
  assumes "try_model env extractedText m = Inr r"
  shows "entry_model r = m" and "entry_error r = None"
    and "entry_usage r \<noteq> None" and "entry_pricing r \<noteq> None"
    and "\<exists>response. call_model env m extractedText = Inr response
           \<and> parse_content (''Failed to parse bill data from '' @ m @ '' response'')
                 (output_text response) = Inr (entry_data r)"
  using assms unfolding try_model_def
  by (auto split: sum.splits)

lemma model_entry_model: "entry_model (model_entry env extractedText m) = m"
  by (cases "try_model env extractedText m") (simp_all add: model_entry_def try_model_complete(1))

text \<open>
  Claim C3: in multi-model mode, for every ordered list of N models (the file can be read
  and parsed, and the final removal is not refused), the call returns a list of exactly N
  entries in the order of the models. The entry of a model whose pipeline fails has
  \<^verbatim>\<open>error\<close> set to the failure's message and \<^verbatim>\<open>data\<close>, \<^verbatim>\<open>usage\<close> and \<^verbatim>\<open>pricing\<close> null; the
  entry of every other model is what its pipeline produced: no error, the data parsed
  from that model's reply, its usage and its pricing. A failure of one model neither
  aborts the loop nor drops an entry.
\<close>

theorem multi_model_partial_failure:
  assumes "readFile fs (path f) = Inr pdfBuffer"
    and "pdfParse env pdfBuffer = Inr extractedText"
    and "remove_error env (path f) = None"
  shows "\<exists>results.
           extract_with_models env models f fs = (Inr results, fs(path f := None))
           \<and> length results = length models
           \<and> (\<forall>i < length models.
                 entry_model (results ! i) = models ! i
                 \<and> (case try_model env extractedText (models ! i) of
                      Inl e \<Rightarrow>
                        results ! i =
                          \<lparr>entry_model = models ! i, entry_error = Some (message e),
                           entry_data = JNull, entry_usage = None, entry_pricing = None,
                           entry_processingTime = None\<rparr>
                    | Inr r \<Rightarrow>
                        results ! i = r \<and> entry_error r = None
                        \<and> entry_usage r \<noteq> None \<and> entry_pricing r \<noteq> None
                        \<and> (\<exists>response.
                              call_model env (models ! i) extractedText = Inr response
                              \<and> parse_content
                                    (''Failed to parse bill data from '' @ models ! i @ '' response'')
                                    (output_text response) = Inr (entry_data r))))"
proof -
  let ?results = "map (model_entry env extractedText) models"
  have run: "extract_with_models env models f fs = (Inr ?results, fs(path f := None))"
    using assms
    by (simp add: extract_with_models_def fs_remove_def process_models_append Let_def)
  have each: "entry_model (?results ! i) = models ! i
      \<and> (case try_model env extractedText (models ! i) of
            Inl e \<Rightarrow>
              ?results ! i =
                \<lparr>entry_model = models ! i, entry_error = Some (message e),
                 entry_data = JNull, entry_usage = None, entry_pricing = None,
                 entry_processingTime = None\<rparr>
          | Inr r \<Rightarrow>
              ?results ! i = r \<and> entry_error r = None
              \<and> entry_usage r \<noteq> None \<and> entry_pricing r \<noteq> None
              \<and> (\<exists>response.
                    call_model env (models ! i) extractedText = Inr response
                    \<and> parse_content
                          (''Failed to parse bill data from '' @ models ! i @ '' response'')
                          (output_text response) = Inr (entry_data r)))"
    if "i < length models" for i
  proof (cases "try_model env extractedText (models ! i)")
    case (Inl e)
    with that show ?thesis by (simp add: model_entry_def)
  next
    case (Inr r)
    with that show ?thesis
      using try_model_complete [OF Inr] by (simp add: model_entry_def)
  qed
  show ?thesis
    by (rule exI [of _ ?results]) (use run each in simp)
qed

text \<open>
  The instance of the specification: three models, the API refuses the second one.
\<close>

lemma try_refused_model:
  "try_model (refusing ''gpt-4o'' text) ''Bill No 42'' ''gpt-4o''
     = Inl (Error ''Failed to process with model gpt-4o: 404 The model does not exist'')"
  by (simp add: try_model_def call_model_def refusing_def request_def)

lemma try_other_models:
  \<open>\<exists>r. try_model (refusing ''gpt-4o'' ''{"A":"1"}'') ''Bill No 42'' ''gpt-4.5-preview'' = Inr r
        \<and> entry_data r = JObject [(''A'', JString ''1'')]\<close>
  \<open>\<exists>r. try_model (refusing ''gpt-4o'' ''{"A":"1"}'') ''Bill No 42'' ''gpt-4o-mini'' = Inr r
        \<and> entry_data r = JObject [(''A'', JString ''1'')]\<close>
  by (simp_all add: try_model_def call_model_def refusing_def request_def raw_reply
      calculatePrice_def invalid_usage_def usage_1545_def prices_def price_table_def)

theorem multi_model_partial_failure_witness:
  \<open>\<exists>results.
      fst (extract_with_models (refusing ''gpt-4o'' ''{"A":"1"}'')
             [''gpt-4.5-preview'', ''gpt-4o'', ''gpt-4o-mini''] upload scratch) = Inr results
      \<and> length results = 3
      \<and> entry_model (results ! 0) = ''gpt-4.5-preview''
      \<and> entry_error (results ! 0) = None
      \<and> entry_data (results ! 0) = JObject [(''A'', JString ''1'')]
      \<and> entry_model (results ! 1) = ''gpt-4o''
      \<and> entry_error (results ! 1)
          = Some ''Failed to process with model gpt-4o: 404 The model does not exist''
      \<and> entry_data (results ! 1) = JNull
      \<and> entry_usage (results ! 1) = None
      \<and> entry_pricing (results ! 1) = None
      \<and> entry_model (results ! 2) = ''gpt-4o-mini''
      \<and> entry_error (results ! 2) = None
      \<and> entry_data (results ! 2) = JObject [(''A'', JString ''1'')]\<close>
proof -
  define env where \<open>env = refusing ''gpt-4o'' ''{"A":"1"}''\<close>
  define models where "models = [''gpt-4.5-preview'', ''gpt-4o'', ''gpt-4o-mini'']"
  have "readFile scratch (path upload) = Inr ''%PDF-1.4''"
    by (simp add: readFile_def scratch_def upload_def)
  moreover have "pdfParse env ''%PDF-1.4'' = Inr ''Bill No 42''"
    by (simp add: env_def refusing_def)
  moreover have "remove_error env (path upload) = None"
    by (simp add: env_def refusing_def)
  ultimately obtain results where
    run: "extract_with_models env models upload scratch
            = (Inr results, scratch(path upload := None))"
    and len: "length results = length models"
    and each: "\<forall>i < length models.
         entry_model (results ! i) = models ! i
         \<and> (case try_model env ''Bill No 42'' (models ! i) of
              Inl e \<Rightarrow>
                results ! i =
                  \<lparr>entry_model = models ! i, entry_error = Some (message e),
                   entry_data = JNull, entry_usage = None, entry_pricing = None,
                   entry_processingTime = None\<rparr>
            | Inr r \<Rightarrow>
                results ! i = r \<and> entry_error r = None
                \<and> entry_usage r \<noteq> None \<and> entry_pricing r \<noteq> None
                \<and> (\<exists>response.
                      call_model env (models ! i) ''Bill No 42'' = Inr response
                      \<and> parse_content
                            (''Failed to parse bill data from '' @ models ! i @ '' response'')
                            (output_text response) = Inr (entry_data r)))"
    using multi_model_partial_failure [of scratch upload "''%PDF-1.4''" env "''Bill No 42''" models]
    by blast
  have l: "length models = 3" by (simp add: models_def)
  from try_other_models(1) obtain r0 where
    r0: "try_model env ''Bill No 42'' ''gpt-4.5-preview'' = Inr r0"
      "entry_data r0 = JObject [(''A'', JString ''1'')]"
    unfolding env_def by blast
  from try_other_models(2) obtain r2 where
    r2: "try_model env ''Bill No 42'' ''gpt-4o-mini'' = Inr r2"
      "entry_data r2 = JObject [(''A'', JString ''1'')]"
    unfolding env_def by blast
  have r1: "try_model env ''Bill No 42'' ''gpt-4o''
      = Inl (Error ''Failed to process with model gpt-4o: 404 The model does not exist'')"
    unfolding env_def by (rule try_refused_model)
  from each l have e0: "results ! 0 = r0 \<and> entry_model r0 = ''gpt-4.5-preview''
      \<and> entry_error r0 = None"
    using r0 by (auto simp: models_def dest!: spec [of _ 0])
  from each l have e1: "results ! 1 = \<lparr>entry_model = ''gpt-4o'',
           entry_error = Some ''Failed to process with model gpt-4o: 404 The model does not exist'',
           entry_data = JNull, entry_usage = None, entry_pricing = None,
           entry_processingTime = None\<rparr>"
    using r1 by (auto simp: models_def dest!: spec [of _ 1])
  from each l have e2: "results ! 2 = r2 \<and> entry_model r2 = ''gpt-4o-mini''
      \<and> entry_error r2 = None"
    using r2 by (auto simp: models_def dest!: spec [of _ 2])
  have "fst (extract_with_models env models upload scratch) = Inr results"
    using run by simp
  then show ?thesis
    unfolding env_def models_def using len l e0 e1 e2 r0(2) r2(2)
    by (intro exI [of _ results]) (simp add: models_def)
qed

end
